theory Spec2Isabelle
  imports Complex_Main
begin

section \<open>Order placement and settlement of the market backend\<close>

text \<open>
  A shallow embedding of \<^verbatim>\<open>src/market/controllers/orderController.ts\<close>,
  \<^verbatim>\<open>src/market/services/paymentService.ts\<close> and the business helpers of
  \<^verbatim>\<open>src/market/utils/helpers.ts\<close>.

  Conventions of the embedding.
  \<^item> A JavaScript \<^verbatim>\<open>number\<close> holding money is a rational (\<open>rat\<close>): sums, products
    and the percentage are exact. Quantities are integers (the request schema and the
    database column both say so).
  \<^item> The database is a record of tables, each a list of rows; a handler takes the world
    and returns its HTTP response together with the new world. Timestamps are left out:
    no branch reads them.
  \<^item> A thrown exception is the left injection of a sum; the world returned beside it
    is the one reached when the exception was raised, since the payment service writes
    outside any transaction.
  \<^item> The payment gateway, the keyed hash and the JSON printer are fields of an
    environment record: they are external to the repository.
\<close>

subsection \<open>Enumerations\<close>

text \<open>
  Modelled from the spec: the Prisma schema that declares the enumerations is not part of
  the sources. The values are the ones the handlers, the validators and the migration
  name.
\<close>

datatype UserRole = CUSTOMER | VENDOR | ADMIN

datatype VendorType =
  HOTEL | ADVENTURE | TRANSPORT | LOCAL_MARKET
  | PHARMACY | MEDICAL_STORE | HOSPITAL_PHARMACY | ONLINE_PHARMACY | WELLNESS_STORE | OTHER

datatype VendorStatus = VENDOR_PENDING | APPROVED | REJECTED | SUSPENDED

datatype BookingStatus = DRAFT | PENDING | CONFIRMED | CANCELLED | COMPLETED

datatype PaymentStatus = PAYMENT_PENDING | SUCCESS | FAILED | REFUNDED

subsection \<open>Rows and requests\<close>

record AuthenticatedUser =
  userId :: string
  phoneNumber :: string
  role :: UserRole
  vendorId :: "string option"

text \<open>
  The vendor columns that \<^verbatim>\<open>createOrder\<close> selects through
  \<^verbatim>\<open>product.pharmacyProfile.vendor\<close>.
\<close>

record Vendor =
  vendor_id :: string
  vendor_status :: VendorStatus
  vendorType :: VendorType
  commissionRate :: rat

text \<open>
  A product row as \<^verbatim>\<open>prisma.product.findMany\<close> returns it with its
  \<^verbatim>\<open>include\<close>: both relations are required, so every product comes with its vendor.
\<close>

record Product =
  product_id :: string
  isAvailable :: bool
  medicineName :: string
  minOrderQuantity :: int
  priceMin :: rat
  priceMax :: rat
  pharmacyProfileId :: string
  vendor :: Vendor

record Booking =
  booking_id :: string
  booking_userId :: string
  booking_vendorId :: string
  bookingType :: VendorType
  booking_totalAmount :: rat
  booking_commissionAmount :: rat
  booking_status :: BookingStatus

record PharmacyBooking =
  pb_id :: string
  pb_bookingId :: string
  pb_pharmacyProfileId :: string
  pb_productId :: string
  pb_quantity :: int
  pb_unitPrice :: rat
  pb_totalAmount :: rat
  pb_requiresDelivery :: bool
  pb_deliveryAddress :: "string option"
  pb_status :: BookingStatus

text \<open>
  The table \<^verbatim>\<open>market_bookings\<close> that the payment service still writes to. The
  migration under \<^verbatim>\<open>prisma/migrations\<close> drops it in favour of
  \<^verbatim>\<open>pharmacy_bookings\<close>; only the two columns the service touches are kept.
\<close>

record MarketBooking =
  mb_bookingId :: string
  mb_status :: BookingStatus

record Payment =
  payment_id :: string
  payment_bookingId :: string
  payment_vendorId :: string
  payment_totalAmount :: rat
  payment_commissionAmount :: rat
  vendorAmount :: rat
  paymentMethod :: string
  paymentStatus :: PaymentStatus
  razorpayOrderId :: "string option"
  razorpayPaymentId :: "string option"
  razorpaySignature :: "string option"
  refundId :: "string option"
  refundAmount :: "rat option"

text \<open>The request body of \<^verbatim>\<open>POST /orders\<close>, before validation.\<close>

record OrderItem =
  item_productId :: string
  item_quantity :: int
  item_unitPrice :: rat
  item_requiresDelivery :: bool
  item_deliveryAddress :: "string option"

record CreateOrderBody =
  items :: "OrderItem list"
  totalAmount :: rat
  body_paymentMethod :: "string option"

record UpdateOrderStatusBody =
  body_status :: BookingStatus
  body_notes :: "string option"

record ValidatedItem =
  vi_productId :: string
  vi_quantity :: int
  vi_unitPrice :: rat
  vi_totalAmount :: rat
  vi_requiresDelivery :: bool
  vi_deliveryAddress :: "string option"

subsection \<open>The gateway, the keyed hash and the world\<close>

record CustomerInfo =
  ci_name :: string
  ci_phone :: string

record PaymentData =
  pd_amount :: rat
  pd_currency :: string
  pd_orderId :: string
  pd_customerInfo :: CustomerInfo

record RazorpayOrderOptions =
  oo_amount :: int
  oo_currency :: string
  oo_receipt :: string
  oo_notes_orderId :: string
  oo_notes_customerPhone :: string
  oo_notes_customerName :: string

record RazorpayOrder =
  ro_id :: string
  ro_amount :: int
  ro_currency :: string
  ro_status :: string

record RazorpayOrderResponse =
  ror_id :: string
  ror_amount :: rat
  ror_currency :: string
  ror_status :: string

record RazorpayRefundOptions =
  rf_amount :: int
  rf_notes_reason :: string
  rf_notes_bookingId :: string

record RazorpayRefund =
  refund_id :: string
  refund_status :: string

record PaymentVerificationData =
  razorpay_payment_id :: string
  razorpay_order_id :: string
  razorpay_signature :: string

text \<open>
  The payment entity of a webhook payload. \<open>pe_notes_orderId\<close> is
  \<^verbatim>\<open>paymentEntity.notes?.orderId\<close>: \<open>None\<close> when the notes or the key are missing.
\<close>

record PaymentEntity =
  pe_id :: string
  pe_order_id :: string
  pe_notes_orderId :: "string option"
  pe_error_description :: "string option"

record RefundEntity =
  re_id :: string

text \<open>
  A webhook payload: \<open>wp_payment\<close> is \<^verbatim>\<open>payload.payload.payment\<close> (with its
  entity), \<open>None\<close> when the payload has no such member, and likewise for the refund.
\<close>

record WebhookPayload =
  wp_event :: string
  wp_payment :: "PaymentEntity option"
  wp_refund :: "RefundEntity option"

text \<open>
  What the service reads from outside the repository: the configured secrets
  (\<^verbatim>\<open>PAYMENT.RAZORPAY_KEY_SECRET\<close>, \<^verbatim>\<open>PAYMENT.WEBHOOK_SECRET\<close>, both from the
  process environment), the hex digest of HMAC-SHA256 as a function of key and message,
  \<^verbatim>\<open>JSON.stringify\<close> on a payload, and the two gateway calls, \<open>None\<close> when the call
  throws.
\<close>

record Env =
  RAZORPAY_KEY_SECRET :: "string option"
  WEBHOOK_SECRET :: "string option"
  hmacSha256Hex :: "string \<Rightarrow> string \<Rightarrow> string"
  jsonStringify :: "WebhookPayload \<Rightarrow> string"
  razorpay_orders_create :: "RazorpayOrderOptions \<Rightarrow> RazorpayOrder option"
  razorpay_payments_refund :: "string \<Rightarrow> RazorpayRefundOptions \<Rightarrow> RazorpayRefund option"

datatype OrderNotificationType =
  ORDER_PLACED | ORDER_CONFIRMED | ORDER_COMPLETED | ORDER_CANCELLED

text \<open>A notification as \<^verbatim>\<open>sendNotification\<close> logs it: receiver, title, order.\<close>

record Notification =
  n_userId :: string
  n_title :: string
  n_orderId :: string

text \<open>A call of \<^verbatim>\<open>paymentService.initiateRefund(paymentId, amount, reason)\<close>.\<close>

record RefundCall =
  rc_paymentId :: string
  rc_amount :: "rat option"
  rc_reason :: "string option"

text \<open>
  The world: the tables, the seed of the identifier generator, and what has been sent out
  (notifications, calls of the refund operation, refund requests that reached the
  gateway). \<open>marketBooking\<close> is \<open>None\<close> when the database client has no such model,
  as after the migration.
\<close>

record World =
  product :: "Product list"
  booking :: "Booking list"
  pharmacyBooking :: "PharmacyBooking list"
  marketBooking :: "MarketBooking list option"
  payment :: "Payment list"
  idSeed :: nat
  notifications :: "Notification list"
  refundCalls :: "RefundCall list"
  gatewayRefunds :: "(string \<times> RazorpayRefundOptions) list"

datatype exn = Error string | TypeError string | RecordNotFound | GatewayError

subsection \<open>Responses\<close>

datatype ErrorMessage =
  FORBIDDEN
  | VALIDATION_ERROR
  | ORDER_NOT_FOUND
  | VENDOR_NOT_APPROVED
  | SomeProductsNotAvailable
  | MultipleVendors
  | InvalidVendorData
  | MinimumOrderQuantity string int
  | InvalidPrice string rat rat
  | TotalAmountMismatch
  | FailedToCreateOrder
  | FailedToUpdateOrderStatus
  | FailedToCancelOrder
  | OrderIdRequired
  | CannotUpdateCompletedOrCancelled
  | CannotCancelCompleted
  | AlreadyCancelled

text \<open>
  \<^verbatim>\<open>res.status(code).json(createErrorResponse(message))\<close> and
  \<^verbatim>\<open>res.status(code).json(createSuccessResponse(message, data))\<close>; \<^verbatim>\<open>res.json\<close>
  alone answers 200.
\<close>

datatype 'a Response = ErrorResponse nat ErrorMessage | SuccessResponse nat 'a

fun isError :: "'a Response \<Rightarrow> bool" where
  "isError (ErrorResponse c m) = True"
| "isError (SuccessResponse c d) = False"

record PaymentSummary =
  ps_paymentStatus :: PaymentStatus
  ps_paymentMethod :: string
  ps_razorpayOrderId :: "string option"

record OrderCreated =
  oc_orderId :: string
  oc_totalAmount :: rat
  oc_commissionAmount :: rat
  oc_status :: BookingStatus
  oc_items :: "ValidatedItem list"
  oc_payment :: PaymentSummary

record OrderUpdated =
  ou_id :: string
  ou_status :: BookingStatus

subsection \<open>Business helpers (helpers.ts) and constants\<close>

definition COMMISSION_RATES_LOCAL_MARKET :: rat where
  "COMMISSION_RATES_LOCAL_MARKET = 10"

definition COMMISSION_RATES_DEFAULT :: rat where
  "COMMISSION_RATES_DEFAULT = 16"

definition calculateCommission :: "rat \<Rightarrow> VendorType \<Rightarrow> rat" where
  "calculateCommission amount vt =
     (let rate = (if vt = LOCAL_MARKET then COMMISSION_RATES_LOCAL_MARKET
                  else COMMISSION_RATES_DEFAULT)
      in (amount * rate) / 100)"

definition calculateVendorAmount :: "rat \<Rightarrow> rat \<Rightarrow> rat" where
  "calculateVendorAmount total_amount commission_amount = total_amount - commission_amount"



subsection \<open>Request schemas (validators.ts)\<close>

definition isSpace :: "char \<Rightarrow> bool" where
  "isSpace c = List.member [CHR '' '', CHR 0x09, CHR 0x0A, CHR 0x0B, CHR 0x0C, CHR 0x0D] c"

text \<open>
  \<^verbatim>\<open>z.string().cuid()\<close>: the library's pattern is \<^verbatim>\<open>/^c[^\s-]{8,}$/i\<close>.
\<close>

definition cuid :: "string \<Rightarrow> bool" where
  "cuid s = (case s of
       [] \<Rightarrow> False
     | c # cs \<Rightarrow> (c = CHR ''c'' \<or> c = CHR ''C'') \<and> 8 \<le> length cs
                \<and> list_all (\<lambda>x. \<not> isSpace x \<and> x \<noteq> CHR ''-'') cs)"

definition maxLength :: "nat \<Rightarrow> string option \<Rightarrow> bool" where
  "maxLength n s = (case s of None \<Rightarrow> True | Some a \<Rightarrow> length a \<le> n)"

definition orderItemSchema :: "OrderItem \<Rightarrow> bool" where
  "orderItemSchema i =
     (cuid (item_productId i) \<and> 1 \<le> item_quantity i \<and> 1 / 100 \<le> item_unitPrice i
      \<and> maxLength 500 (item_deliveryAddress i))"

definition createOrderSchema :: "CreateOrderBody \<Rightarrow> bool" where
  "createOrderSchema b =
     (list_all orderItemSchema (items b) \<and> 1 \<le> length (items b) \<and> 1 / 100 \<le> totalAmount b)"

definition updateOrderStatusSchema :: "UpdateOrderStatusBody \<Rightarrow> bool" where
  "updateOrderStatusSchema b =
     (List.member [CONFIRMED, CANCELLED, COMPLETED] (body_status b) \<and> maxLength 500 (body_notes b))"

text \<open>JavaScript truthiness of an optional string: present and not empty.\<close>

definition truthy :: "string option \<Rightarrow> bool" where
  "truthy s = (case s of None \<Rightarrow> False | Some a \<Rightarrow> a \<noteq> [])"

subsection \<open>Identifiers\<close>

text \<open>
  Modelled from the spec: the rows get their identifiers from the database client
  (cuid strings, as the request schema expects of a product id); the generator is not part
  of the sources. Here the \<open>n\<close>-th identifier is the text \<open>cuid0000\<close> followed by the
  decimal digits of \<open>n\<close>.
\<close>

fun digitsOf :: "nat \<Rightarrow> string" where
  "digitsOf n =
     (if n < 10 then [char_of (48 + n)]
      else digitsOf (n div 10) @ [char_of (48 + n mod 10)])"

declare digitsOf.simps [simp del]

definition genId :: "nat \<Rightarrow> string" where
  "genId n = ''cuid0000'' @ digitsOf n"

subsection \<open>Notifications (notificationService.ts)\<close>

fun templateTitle :: "OrderNotificationType \<Rightarrow> string" where
  "templateTitle ORDER_PLACED = ''Order Placed Successfully''"
| "templateTitle ORDER_CONFIRMED = ''Order Confirmed''"
| "templateTitle ORDER_COMPLETED = ''Order Completed''"
| "templateTitle ORDER_CANCELLED = ''Order Cancelled''"

definition sendNotification :: "string \<Rightarrow> string \<Rightarrow> string \<Rightarrow> World \<Rightarrow> World" where
  "sendNotification uid title orderId w =
     w\<lparr>notifications := notifications w
          @ [\<lparr>n_userId = uid, n_title = title, n_orderId = orderId\<rparr>]\<rparr>"

text \<open>
  \<^verbatim>\<open>sendOrderNotification\<close> catches whatever it raises, so it only ever extends the
  log: for a placed order with a vendor id, the vendor first, then the customer.
\<close>

definition sendOrderNotification ::
  "OrderNotificationType \<Rightarrow> string \<Rightarrow> string \<Rightarrow> string option \<Rightarrow> World \<Rightarrow> World" where
  "sendOrderNotification type orderId uid vid w =
     (let w1 = (case vid of
                  None \<Rightarrow> w
                | Some v \<Rightarrow>
                    if type = ORDER_PLACED \<and> v \<noteq> []
                    then sendNotification v ''New Order Received'' orderId w
                    else w)
      in sendNotification uid (templateTitle type) orderId w1)"

subsection \<open>Opening a gateway order (PaymentService.createOrder)\<close>

definition Math_round :: "rat \<Rightarrow> int" where
  "Math_round x = \<lfloor>x + 1 / 2\<rfloor>"

definition PaymentService_createOrder :: "Env \<Rightarrow> PaymentData \<Rightarrow> exn + RazorpayOrderResponse" where
  "PaymentService_createOrder env paymentData =
     (let options = \<lparr>oo_amount = Math_round (pd_amount paymentData * 100),
                      oo_currency = pd_currency paymentData,
                      oo_receipt = pd_orderId paymentData,
                      oo_notes_orderId = pd_orderId paymentData,
                      oo_notes_customerPhone = ci_phone (pd_customerInfo paymentData),
                      oo_notes_customerName = ci_name (pd_customerInfo paymentData)\<rparr>
      in case razorpay_orders_create env options of
           None \<Rightarrow> Inl (Error ''Failed to create payment order'')
         | Some order \<Rightarrow>
             Inr \<lparr>ror_id = ro_id order,
                  ror_amount = of_int (ro_amount order) / 100,
                  ror_currency = ro_currency order,
                  ror_status = ro_status order\<rparr>)"

subsection \<open>OrderController.createOrder\<close>

text \<open>
  \<^verbatim>\<open>prisma.product.findMany({where: {id: {in: productIds}, isAvailable: true}})\<close>: the
  rows of the table that match, each once.
\<close>

definition findAvailableProducts :: "World \<Rightarrow> string list \<Rightarrow> Product list" where
  "findAvailableProducts w productIds =
     filter (\<lambda>p. product_id p \<in> set productIds \<and> isAvailable p) (product w)"

text \<open>
  The loop over the requested items (lines 124 to 164): an item whose product was not
  resolved is skipped, the first violated bound ends the request, and the running total
  and the validated items are the accumulators.
\<close>

fun validateItems ::
  "Product list \<Rightarrow> OrderItem list \<Rightarrow> rat \<Rightarrow> ValidatedItem list
     \<Rightarrow> ErrorMessage + rat \<times> ValidatedItem list" where
  "validateItems products [] calculatedTotal validatedItems =
     Inr (calculatedTotal, validatedItems)"
| "validateItems products (item # rest) calculatedTotal validatedItems =
     (case find (\<lambda>p. product_id p = item_productId item) products of
        None \<Rightarrow> validateItems products rest calculatedTotal validatedItems
      | Some pr \<Rightarrow>
          if item_quantity item < minOrderQuantity pr
          then Inl (MinimumOrderQuantity (medicineName pr) (minOrderQuantity pr))
          else if item_unitPrice item < priceMin pr \<or> item_unitPrice item > priceMax pr
          then Inl (InvalidPrice (medicineName pr) (priceMin pr) (priceMax pr))
          else
            let itemTotal = item_unitPrice item * of_int (item_quantity item)
            in validateItems products rest (calculatedTotal + itemTotal)
                 (validatedItems @
                    [\<lparr>vi_productId = item_productId item,
                      vi_quantity = item_quantity item,
                      vi_unitPrice = item_unitPrice item,
                      vi_totalAmount = itemTotal,
                      vi_requiresDelivery = item_requiresDelivery item,
                      vi_deliveryAddress =
                        (if truthy (item_deliveryAddress item)
                         then item_deliveryAddress item else None)\<rparr>]))"

record ValidatedOrder =
  vo_products :: "Product list"
  vo_vendor :: Vendor
  vo_calculatedTotal :: rat
  vo_validatedItems :: "ValidatedItem list"

text \<open>
  Lines 37 to 171 of \<^verbatim>\<open>createOrder\<close>: every check that can answer before anything
  is written, in the order of the source. The left injection is the status code and the
  message of the error response.
\<close>

definition validateOrder ::
  "AuthenticatedUser \<Rightarrow> CreateOrderBody \<Rightarrow> World \<Rightarrow> nat \<times> ErrorMessage + ValidatedOrder" where
  "validateOrder user orderData w =
     (if role user \<noteq> CUSTOMER then Inl (403, FORBIDDEN)
      else if \<not> createOrderSchema orderData then Inl (400, VALIDATION_ERROR)
      else
        let productIds = map item_productId (items orderData);
            products = findAvailableProducts w productIds
        in if length products \<noteq> length productIds then Inl (400, SomeProductsNotAvailable)
           else if length (remdups (map (\<lambda>p. vendor_id (vendor p)) products)) > 1
           then Inl (400, MultipleVendors)
           else (case products of
                  [] \<Rightarrow> Inl (400, InvalidVendorData)
                | p0 # _ \<Rightarrow>
                    if vendor_status (vendor p0) \<noteq> APPROVED
                    then Inl (400, VENDOR_NOT_APPROVED)
                    else (case validateItems products (items orderData) 0 [] of
                           Inl m \<Rightarrow> Inl (400, m)
                         | Inr (calculatedTotal, validatedItems) \<Rightarrow>
                             if \<bar>calculatedTotal - totalAmount orderData\<bar> > 1 / 100
                             then Inl (400, TotalAmountMismatch)
                             else Inr \<lparr>vo_products = products,
                                       vo_vendor = vendor p0,
                                       vo_calculatedTotal = calculatedTotal,
                                       vo_validatedItems = validatedItems\<rparr>)))"

text \<open>
  The line rows of the transaction. The source looks the product of each validated item
  up again and asserts that it is there (\<^verbatim>\<open>find(...)!\<close>); a miss would throw and roll
  the transaction back, hence the option.
\<close>

fun createPharmacyBookings ::
  "string \<Rightarrow> Product list \<Rightarrow> nat \<Rightarrow> ValidatedItem list \<Rightarrow> PharmacyBooking list option" where
  "createPharmacyBookings bookingId products n [] = Some []"
| "createPharmacyBookings bookingId products n (item # rest) =
     (case find (\<lambda>p. product_id p = vi_productId item) products of
        None \<Rightarrow> None
      | Some pr \<Rightarrow>
          (case createPharmacyBookings bookingId products (Suc n) rest of
             None \<Rightarrow> None
           | Some rows \<Rightarrow>
               Some (\<lparr>pb_id = genId n,
                      pb_bookingId = bookingId,
                      pb_pharmacyProfileId = pharmacyProfileId pr,
                      pb_productId = vi_productId item,
                      pb_quantity = vi_quantity item,
                      pb_unitPrice = vi_unitPrice item,
                      pb_totalAmount = vi_totalAmount item,
                      pb_requiresDelivery = vi_requiresDelivery item,
                      pb_deliveryAddress = vi_deliveryAddress item,
                      pb_status = PENDING\<rparr> # rows)))"

definition paymentMethodOrDefault :: "string option \<Rightarrow> string" where
  "paymentMethodOrDefault m = (case m of None \<Rightarrow> ''RAZORPAY'' | Some a \<Rightarrow> if a = [] then ''RAZORPAY'' else a)"

text \<open>
  The transaction of lines 184 to 232: the booking, its lines and its payment are
  inserted together, or (on a throw) nothing is.
\<close>

definition createBookingTransaction ::
  "AuthenticatedUser \<Rightarrow> CreateOrderBody \<Rightarrow> ValidatedOrder \<Rightarrow> rat \<Rightarrow> rat \<Rightarrow> World
     \<Rightarrow> (Booking \<times> PharmacyBooking list \<times> Payment \<times> World) option" where
  "createBookingTransaction user orderData vo commissionAmount vendorAmt w =
     (let n = idSeed w;
          newBooking = \<lparr>booking_id = genId n,
                        booking_userId = userId user,
                        booking_vendorId = vendor_id (vo_vendor vo),
                        bookingType = PHARMACY,
                        booking_totalAmount = vo_calculatedTotal vo,
                        booking_commissionAmount = commissionAmount,
                        booking_status = PENDING\<rparr>
      in case createPharmacyBookings (booking_id newBooking) (vo_products vo) (Suc n)
                (vo_validatedItems vo) of
           None \<Rightarrow> None
         | Some pharmacyBookings \<Rightarrow>
             let k = Suc n + length pharmacyBookings;
                 newPayment = \<lparr>payment_id = genId k,
                               payment_bookingId = booking_id newBooking,
                               payment_vendorId = vendor_id (vo_vendor vo),
                               payment_totalAmount = vo_calculatedTotal vo,
                               payment_commissionAmount = commissionAmount,
                               vendorAmount = vendorAmt,
                               paymentMethod = paymentMethodOrDefault (body_paymentMethod orderData),
                               paymentStatus = PAYMENT_PENDING,
                               razorpayOrderId = None,
                               razorpayPaymentId = None,
                               razorpaySignature = None,
                               refundId = None,
                               refundAmount = None\<rparr>
             in Some (newBooking, pharmacyBookings, newPayment,
                      w\<lparr>booking := booking w @ [newBooking],
                        pharmacyBooking := pharmacyBooking w @ pharmacyBookings,
                        payment := payment w @ [newPayment],
                        idSeed := Suc k\<rparr>))"

text \<open>
  \<^verbatim>\<open>prisma.payment.update({where: {bookingId}, data})\<close>: \<open>None\<close> (the client throws)
  when no payment row has that booking id.
\<close>

definition payment_update_byBookingId ::
  "string \<Rightarrow> (Payment \<Rightarrow> Payment) \<Rightarrow> World \<Rightarrow> World option" where
  "payment_update_byBookingId bid f w =
     (if list_ex (\<lambda>p. payment_bookingId p = bid) (payment w)
      then Some (w\<lparr>payment := map (\<lambda>p. if payment_bookingId p = bid then f p else p) (payment w)\<rparr>)
      else None)"

text \<open>
  Lines 234 to 257: the gateway order is opened only for the default payment method, and
  a throw of the gateway (or of the update after it) is caught and logged. The first
  component is \<^verbatim>\<open>razorpayOrder\<close> as the response reads it.
\<close>

definition openGatewayOrder ::
  "Env \<Rightarrow> AuthenticatedUser \<Rightarrow> CreateOrderBody \<Rightarrow> rat \<Rightarrow> string \<Rightarrow> World
     \<Rightarrow> RazorpayOrderResponse option \<times> World" where
  "openGatewayOrder env user orderData calculatedTotal bookingId w =
     (if body_paymentMethod orderData = Some ''RAZORPAY'' \<or> \<not> truthy (body_paymentMethod orderData)
      then
        (case PaymentService_createOrder env
                \<lparr>pd_amount = calculatedTotal, pd_currency = ''INR'', pd_orderId = bookingId,
                 pd_customerInfo = \<lparr>ci_name = ''Customer'', ci_phone = phoneNumber user\<rparr>\<rparr> of
           Inl e \<Rightarrow> (None, w)
         | Inr razorpayOrder \<Rightarrow>
             (case payment_update_byBookingId bookingId
                     (\<lambda>p. p\<lparr>razorpayOrderId := Some (ror_id razorpayOrder)\<rparr>) w of
                None \<Rightarrow> (Some razorpayOrder, w)
              | Some w' \<Rightarrow> (Some razorpayOrder, w')))
      else (None, w))"

definition createOrder ::
  "Env \<Rightarrow> AuthenticatedUser \<Rightarrow> CreateOrderBody \<Rightarrow> World \<Rightarrow> OrderCreated Response \<times> World" where
  "createOrder env user orderData w =
     (case validateOrder user orderData w of
        Inl (code, m) \<Rightarrow> (ErrorResponse code m, w)
      | Inr vo \<Rightarrow>
          let calculatedTotal = vo_calculatedTotal vo;
              commissionAmount = calculateCommission calculatedTotal (vendorType (vo_vendor vo));
              vendorAmt = calculateVendorAmount calculatedTotal commissionAmount
          in (case createBookingTransaction user orderData vo commissionAmount vendorAmt w of
               None \<Rightarrow> (ErrorResponse 500 FailedToCreateOrder, w)
             | Some (newBooking, pharmacyBookings, newPayment, w1) \<Rightarrow>
                 (case openGatewayOrder env user orderData calculatedTotal
                         (booking_id newBooking) w1 of
                    (razorpayOrder, w2) \<Rightarrow>
                   (let w3 = sendOrderNotification ORDER_PLACED (booking_id newBooking)
                               (userId user) (Some (vendor_id (vo_vendor vo))) w2
                    in (SuccessResponse 201
                       \<lparr>oc_orderId = booking_id newBooking,
                        oc_totalAmount = calculatedTotal,
                        oc_commissionAmount = commissionAmount,
                        oc_status = booking_status newBooking,
                        oc_items = vo_validatedItems vo,
                        oc_payment =
                          \<lparr>ps_paymentStatus = paymentStatus newPayment,
                           ps_paymentMethod = paymentMethod newPayment,
                           ps_razorpayOrderId = map_option ror_id razorpayOrder\<rparr>\<rparr>,
                     w3)))))"

subsection \<open>Status writes shared by the handlers\<close>

text \<open>
  \<^verbatim>\<open>booking.update({where: {id}, data: {status}})\<close> answers the updated row and throws
  (\<open>None\<close>) when no row has the id.
\<close>

definition booking_update_status ::
  "string \<Rightarrow> BookingStatus \<Rightarrow> World \<Rightarrow> (Booking \<times> World) option" where
  "booking_update_status bid st w =
     (case find (\<lambda>b. booking_id b = bid) (booking w) of
        None \<Rightarrow> None
      | Some b \<Rightarrow>
          Some (b\<lparr>booking_status := st\<rparr>,
                w\<lparr>booking := map (\<lambda>r. if booking_id r = bid then r\<lparr>booking_status := st\<rparr> else r)
                                 (booking w)\<rparr>))"

definition pharmacyBooking_updateMany :: "string \<Rightarrow> BookingStatus \<Rightarrow> World \<Rightarrow> World" where
  "pharmacyBooking_updateMany bid st w =
     w\<lparr>pharmacyBooking :=
         map (\<lambda>r. if pb_bookingId r = bid then r\<lparr>pb_status := st\<rparr> else r) (pharmacyBooking w)\<rparr>"

text \<open>
  \<^verbatim>\<open>prisma.marketBooking.updateMany\<close>: a \<^verbatim>\<open>TypeError\<close> (\<open>None\<close>) when the client has
  no such model, else the rows of that table are updated.
\<close>

definition marketBooking_updateMany :: "string \<Rightarrow> BookingStatus \<Rightarrow> World \<Rightarrow> World option" where
  "marketBooking_updateMany bid st w =
     (case marketBooking w of
        None \<Rightarrow> None
      | Some rows \<Rightarrow>
          Some (w\<lparr>marketBooking :=
                    Some (map (\<lambda>r. if mb_bookingId r = bid then r\<lparr>mb_status := st\<rparr> else r) rows)\<rparr>))"

text \<open>
  The transaction of \<^verbatim>\<open>updateOrderStatus\<close> and of \<^verbatim>\<open>cancelOrder\<close>: the booking and
  its lines take the status together.
\<close>

definition statusTransaction ::
  "string \<Rightarrow> BookingStatus \<Rightarrow> World \<Rightarrow> (Booking \<times> World) option" where
  "statusTransaction bid st w =
     (case booking_update_status bid st w of
        None \<Rightarrow> None
      | Some (b, w1) \<Rightarrow> Some (b, pharmacyBooking_updateMany bid st w1))"

subsection \<open>OrderController.updateOrderStatus\<close>

definition updateOrderStatus ::
  "AuthenticatedUser \<Rightarrow> string \<Rightarrow> UpdateOrderStatusBody \<Rightarrow> World
     \<Rightarrow> OrderUpdated Response \<times> World" where
  "updateOrderStatus user oid body w =
     (if oid = [] then (ErrorResponse 400 OrderIdRequired, w)
      else if role user \<noteq> VENDOR \<or> \<not> truthy (vendorId user) then (ErrorResponse 403 FORBIDDEN, w)
      else if \<not> updateOrderStatusSchema body then (ErrorResponse 400 VALIDATION_ERROR, w)
      else
        (case find (\<lambda>b. booking_id b = oid \<and> Some (booking_vendorId b) = vendorId user)
                (booking w) of
           None \<Rightarrow> (ErrorResponse 404 ORDER_NOT_FOUND, w)
         | Some order \<Rightarrow>
             if booking_status order = COMPLETED \<or> booking_status order = CANCELLED
             then (ErrorResponse 400 CannotUpdateCompletedOrCancelled, w)
             else
               (case statusTransaction oid (body_status body) w of
                  None \<Rightarrow> (ErrorResponse 500 FailedToUpdateOrderStatus, w)
                | Some (updatedOrder, w1) \<Rightarrow>
                    (let notificationType =
                           (if body_status body = CONFIRMED then ORDER_CONFIRMED
                            else if body_status body = COMPLETED then ORDER_COMPLETED
                            else ORDER_CANCELLED);
                         w2 = sendOrderNotification notificationType (booking_id order)
                                (booking_userId order) None w1
                     in (SuccessResponse 200
                           \<lparr>ou_id = booking_id updatedOrder,
                            ou_status = booking_status updatedOrder\<rparr>,
                         w2)))))"

subsection \<open>PaymentService.initiateRefund\<close>

text \<open>
  Every call is entered in \<open>refundCalls\<close>; a refund request that reaches the gateway is
  entered in \<open>gatewayRefunds\<close>. The answer is the refund id, the amount and the
  gateway's status.
\<close>

definition initiateRefund ::
  "Env \<Rightarrow> string \<Rightarrow> rat option \<Rightarrow> string option \<Rightarrow> World
     \<Rightarrow> (exn + string \<times> rat \<times> string) \<times> World" where
  "initiateRefund env paymentId amount reason w0 =
     (let w = w0\<lparr>refundCalls := refundCalls w0
                   @ [\<lparr>rc_paymentId = paymentId, rc_amount = amount, rc_reason = reason\<rparr>]\<rparr>
      in case find (\<lambda>p. payment_id p = paymentId) (payment w) of
           None \<Rightarrow> (Inl (Error ''Payment not found or invalid''), w)
         | Some pay \<Rightarrow>
             (case razorpayPaymentId pay of
                None \<Rightarrow> (Inl (Error ''Payment not found or invalid''), w)
              | Some rzpPaymentId \<Rightarrow>
                  if rzpPaymentId = [] then (Inl (Error ''Payment not found or invalid''), w)
                  else if paymentStatus pay \<noteq> SUCCESS
                  then (Inl (Error ''Cannot refund non-successful payment''), w)
                  else
                    (let refundAmt =
                           (case amount of
                              None \<Rightarrow> payment_totalAmount pay
                            | Some a \<Rightarrow> if a = 0 then payment_totalAmount pay else a);
                         options =
                           \<lparr>rf_amount = Math_round (refundAmt * 100),
                            rf_notes_reason =
                              (case reason of
                                 None \<Rightarrow> ''Customer refund request''
                               | Some r \<Rightarrow> if r = [] then ''Customer refund request'' else r),
                            rf_notes_bookingId = payment_bookingId pay\<rparr>;
                         w1 = w\<lparr>gatewayRefunds := gatewayRefunds w @ [(rzpPaymentId, options)]\<rparr>
                     in case razorpay_payments_refund env rzpPaymentId options of
                          None \<Rightarrow> (Inl GatewayError, w1)
                        | Some refund \<Rightarrow>
                            (Inr (refund_id refund, refundAmt, refund_status refund),
                             w1\<lparr>payment :=
                                  map (\<lambda>p. if payment_id p = paymentId
                                            then p\<lparr>paymentStatus := REFUNDED,
                                                   refundId := Some (refund_id refund),
                                                   refundAmount := Some refundAmt\<rparr>
                                            else p) (payment w1)\<rparr>))))"

subsection \<open>OrderController.cancelOrder\<close>

definition cancelOrder ::
  "Env \<Rightarrow> AuthenticatedUser \<Rightarrow> string \<Rightarrow> World \<Rightarrow> OrderUpdated Response \<times> World" where
  "cancelOrder env user oid w =
     (if oid = [] then (ErrorResponse 400 OrderIdRequired, w)
      else if role user \<noteq> CUSTOMER then (ErrorResponse 403 FORBIDDEN, w)
      else
        (case find (\<lambda>b. booking_id b = oid \<and> booking_userId b = userId user) (booking w) of
           None \<Rightarrow> (ErrorResponse 404 ORDER_NOT_FOUND, w)
         | Some order \<Rightarrow>
             (let orderPayment = find (\<lambda>p. payment_bookingId p = booking_id order) (payment w)
              in if booking_status order = COMPLETED
                 then (ErrorResponse 400 CannotCancelCompleted, w)
                 else if booking_status order = CANCELLED
                 then (ErrorResponse 400 AlreadyCancelled, w)
                 else
                   (case statusTransaction oid CANCELLED w of
                      None \<Rightarrow> (ErrorResponse 500 FailedToCancelOrder, w)
                    | Some (updatedOrder, w1) \<Rightarrow>
                        (let w2 =
                               (case orderPayment of
                                  None \<Rightarrow> w1
                                | Some pay \<Rightarrow>
                                    if paymentStatus pay = SUCCESS
                                    then snd (initiateRefund env (payment_id pay)
                                                (Some (payment_totalAmount pay))
                                                (Some ''Customer cancellation'') w1)
                                    else w1)
                         in (SuccessResponse 200
                               \<lparr>ou_id = booking_id updatedOrder,
                                ou_status = booking_status updatedOrder\<rparr>,
                             w2))))))"

subsection \<open>PaymentService: settlement and webhooks\<close>

text \<open>
  \<^verbatim>\<open>verifyPaymentSignature\<close>: the digest of \<^verbatim>\<open>order_id|payment_id\<close> under the key
  secret against the supplied signature; a missing secret throws inside the
  \<^verbatim>\<open>try\<close> and the answer is \<^verbatim>\<open>false\<close>.
\<close>

definition verifyPaymentSignature :: "Env \<Rightarrow> PaymentVerificationData \<Rightarrow> bool" where
  "verifyPaymentSignature env d =
     (case RAZORPAY_KEY_SECRET env of
        None \<Rightarrow> False
      | Some secret \<Rightarrow>
          if secret = [] then False
          else hmacSha256Hex env secret (razorpay_order_id d @ ''|'' @ razorpay_payment_id d)
                 = razorpay_signature d)"

definition processPaymentSuccess ::
  "Env \<Rightarrow> string \<Rightarrow> PaymentVerificationData \<Rightarrow> World \<Rightarrow> (exn + unit) \<times> World" where
  "processPaymentSuccess env bookingId verificationData w =
     (if \<not> verifyPaymentSignature env verificationData
      then (Inl (Error ''Invalid payment signature''), w)
      else
        (case payment_update_byBookingId bookingId
                (\<lambda>p. p\<lparr>paymentStatus := SUCCESS,
                       razorpayPaymentId := Some (razorpay_payment_id verificationData),
                       razorpaySignature := Some (razorpay_signature verificationData)\<rparr>) w of
           None \<Rightarrow> (Inl RecordNotFound, w)
         | Some w1 \<Rightarrow>
             (case booking_update_status bookingId CONFIRMED w1 of
                None \<Rightarrow> (Inl RecordNotFound, w1)
              | Some (b, w2) \<Rightarrow>
                  (case marketBooking_updateMany bookingId CONFIRMED w2 of
                     None \<Rightarrow> (Inl (TypeError ''prisma.marketBooking is undefined''), w2)
                   | Some w3 \<Rightarrow> (Inr (), w3)))))"

definition processPaymentFailure ::
  "string \<Rightarrow> string option \<Rightarrow> World \<Rightarrow> (exn + unit) \<times> World" where
  "processPaymentFailure bookingId reason w =
     (case payment_update_byBookingId bookingId (\<lambda>p. p\<lparr>paymentStatus := FAILED\<rparr>) w of
        None \<Rightarrow> (Inl RecordNotFound, w)
      | Some w1 \<Rightarrow>
          (case booking_update_status bookingId CANCELLED w1 of
             None \<Rightarrow> (Inl RecordNotFound, w1)
           | Some (b, w2) \<Rightarrow>
               (case marketBooking_updateMany bookingId CANCELLED w2 of
                  None \<Rightarrow> (Inl (TypeError ''prisma.marketBooking is undefined''), w2)
                | Some w3 \<Rightarrow> (Inr (), w3))))"

text \<open>
  The three private handlers catch and log whatever is thrown below them, so each
  answers a world and nothing else.
\<close>

definition handlePaymentCaptured :: "Env \<Rightarrow> PaymentEntity \<Rightarrow> World \<Rightarrow> World" where
  "handlePaymentCaptured env paymentEntity w =
     (case pe_notes_orderId paymentEntity of
        None \<Rightarrow> w
      | Some orderId \<Rightarrow>
          if orderId = [] then w
          else
            (case find (\<lambda>b. booking_id b = orderId) (booking w) of
               None \<Rightarrow> w
             | Some b \<Rightarrow>
                 snd (processPaymentSuccess env (booking_id b)
                        \<lparr>razorpay_payment_id = pe_id paymentEntity,
                         razorpay_order_id = pe_order_id paymentEntity,
                         razorpay_signature = []\<rparr> w)))"

definition handlePaymentFailed :: "PaymentEntity \<Rightarrow> World \<Rightarrow> World" where
  "handlePaymentFailed paymentEntity w =
     (case pe_notes_orderId paymentEntity of
        None \<Rightarrow> w
      | Some orderId \<Rightarrow>
          if orderId = [] then w
          else
            (case find (\<lambda>b. booking_id b = orderId) (booking w) of
               None \<Rightarrow> w
             | Some b \<Rightarrow>
                 snd (processPaymentFailure (booking_id b)
                        (pe_error_description paymentEntity) w)))"

definition handleRefundProcessed :: "RefundEntity \<Rightarrow> World \<Rightarrow> World" where
  "handleRefundProcessed refundEntity w =
     w\<lparr>payment :=
         map (\<lambda>p. if refundId p = Some (re_id refundEntity)
                   then p\<lparr>paymentStatus := REFUNDED\<rparr> else p) (payment w)\<rparr>"

definition handleWebhook ::
  "Env \<Rightarrow> string \<Rightarrow> WebhookPayload \<Rightarrow> World \<Rightarrow> (exn + unit) \<times> World" where
  "handleWebhook env signature payload w =
     (case WEBHOOK_SECRET env of
        None \<Rightarrow> (Inl (Error ''Webhook secret is not configured''), w)
      | Some secret \<Rightarrow>
          if secret = [] then (Inl (Error ''Webhook secret is not configured''), w)
          else if signature \<noteq> hmacSha256Hex env secret (jsonStringify env payload)
          then (Inl (Error ''Invalid webhook signature''), w)
          else
            (case wp_payment payload of
               None \<Rightarrow> (Inl (TypeError ''payload.payload.payment is undefined''), w)
             | Some paymentEntity \<Rightarrow>
                 if wp_event payload = ''payment.captured''
                 then (Inr (), handlePaymentCaptured env paymentEntity w)
                 else if wp_event payload = ''payment.failed''
                 then (Inr (), handlePaymentFailed paymentEntity w)
                 else if wp_event payload = ''refund.processed''
                 then (case wp_refund payload of
                         None \<Rightarrow> (Inl (TypeError ''payload.payload.refund is undefined''), w)
                       | Some refundEntity \<Rightarrow> (Inr (), handleRefundProcessed refundEntity w))
                 else (Inr (), w)))"

subsection \<open>Sequences of lifecycle calls\<close>

datatype Operation =
  UpdateStatus AuthenticatedUser string UpdateOrderStatusBody
  | CancelOrder AuthenticatedUser string

fun step :: "Env \<Rightarrow> Operation \<Rightarrow> World \<Rightarrow> World" where
  "step env (UpdateStatus user oid body) w = snd (updateOrderStatus user oid body w)"
| "step env (CancelOrder user oid) w = snd (cancelOrder env user oid w)"

fun run :: "Env \<Rightarrow> Operation list \<Rightarrow> World \<Rightarrow> World" where
  "run env [] w = w"
| "run env (op # ops) w = run env ops (step env op w)"

subsection \<open>Vocabulary of the properties\<close>

text \<open>The sum of the line totals of a request, quantity times unit price per item.\<close>

definition sumOfLineTotals :: "OrderItem list \<Rightarrow> rat" where
  "sumOfLineTotals its = sum_list (map (\<lambda>i. item_unitPrice i * of_int (item_quantity i)) its)"

definition terminal :: "BookingStatus \<Rightarrow> bool" where
  "terminal st = (st = COMPLETED \<or> st = CANCELLED)"

text \<open>The rows of one order: its header rows and its lines.\<close>

definition bookingsOf :: "string \<Rightarrow> World \<Rightarrow> Booking list" where
  "bookingsOf oid w = filter (\<lambda>b. booking_id b = oid) (booking w)"

definition linesOf :: "string \<Rightarrow> World \<Rightarrow> PharmacyBooking list" where
  "linesOf oid w = filter (\<lambda>l. pb_bookingId l = oid) (pharmacyBooking w)"

text \<open>
  The product a line resolves to, and the two bounds of a line against it; a line with no
  resolved product violates neither.
\<close>

definition resolve :: "Product list \<Rightarrow> OrderItem \<Rightarrow> Product option" where
  "resolve products item = find (\<lambda>p. product_id p = item_productId item) products"

definition belowMinimum :: "Product list \<Rightarrow> OrderItem \<Rightarrow> bool" where
  "belowMinimum products item =
     (case resolve products item of
        None \<Rightarrow> False
      | Some p \<Rightarrow> item_quantity item < minOrderQuantity p)"

definition priceOutOfRange :: "Product list \<Rightarrow> OrderItem \<Rightarrow> bool" where
  "priceOutOfRange products item =
     (case resolve products item of
        None \<Rightarrow> False
      | Some p \<Rightarrow> item_unitPrice item < priceMin p \<or> priceMax p < item_unitPrice item)"





text \<open>The payment of an order, as \<^verbatim>\<open>include: {payment: true}\<close> fetches it.\<close>

definition orderPaymentOf :: "World \<Rightarrow> string \<Rightarrow> Payment option" where
  "orderPaymentOf w oid = find (\<lambda>p. payment_bookingId p = oid) (payment w)"



subsection \<open>A small shop\<close>

text \<open>
  One approved pharmacy with one product, one customer and the vendor's user; the
  gateway is down and the digest is a stand-in of the right length. The request is the
  one of the specification's end-to-end example: two units at 100, declared total 200.
\<close>

definition exProduct :: Product where
  "exProduct =
     \<lparr>product_id = ''cproduct01'', isAvailable = True, medicineName = ''Paracetamol'',
      minOrderQuantity = 1, priceMin = 90, priceMax = 110, pharmacyProfileId = ''cprofile01'',
      vendor = \<lparr>vendor_id = ''cvendor001'', vendor_status = APPROVED, vendorType = PHARMACY,
                commissionRate = 16\<rparr>\<rparr>"

definition exWorld :: World where
  "exWorld =
     \<lparr>product = [exProduct], booking = [], pharmacyBooking = [], marketBooking = None,
      payment = [], idSeed = 0, notifications = [], refundCalls = [], gatewayRefunds = []\<rparr>"

definition exCustomer :: AuthenticatedUser where
  "exCustomer =
     \<lparr>userId = ''cuser0001'', phoneNumber = ''9876543210'', role = CUSTOMER, vendorId = None\<rparr>"

definition exVendorUser :: AuthenticatedUser where
  "exVendorUser =
     \<lparr>userId = ''cuser0002'', phoneNumber = ''9876500000'', role = VENDOR,
      vendorId = Some ''cvendor001''\<rparr>"

definition exItem :: OrderItem where
  "exItem =
     \<lparr>item_productId = ''cproduct01'', item_quantity = 2, item_unitPrice = 100,
      item_requiresDelivery = False, item_deliveryAddress = None\<rparr>"

definition exBody :: CreateOrderBody where
  "exBody = \<lparr>items = [exItem], totalAmount = 200, body_paymentMethod = None\<rparr>"



definition exBodyTwice :: CreateOrderBody where
  "exBodyTwice = \<lparr>items = [exItem, exItem], totalAmount = 400, body_paymentMethod = None\<rparr>"

definition exEnv :: Env where
  "exEnv =
     \<lparr>RAZORPAY_KEY_SECRET = Some ''key_secret'', WEBHOOK_SECRET = Some ''webhook_secret'',
      hmacSha256Hex = (\<lambda>k m. replicate 64 (CHR ''0'')),
      jsonStringify = (\<lambda>p. wp_event p),
      razorpay_orders_create = (\<lambda>options. None),
      razorpay_payments_refund = (\<lambda>pid options. None)\<rparr>"

text \<open>The world once the example order is placed, and its order id.\<close>

definition exPlaced :: World where
  "exPlaced = snd (createOrder exEnv exCustomer exBody exWorld)"

definition exOrderId :: string where
  "exOrderId = ''cuid00000''"

text \<open>The placed order after a settlement with a signature that verifies.\<close>

definition exPaid :: World where
  "exPaid =
     snd (processPaymentSuccess exEnv exOrderId
            \<lparr>razorpay_payment_id = ''pay_1'', razorpay_order_id = ''order_1'',
             razorpay_signature = replicate 64 (CHR ''0'')\<rparr> exPlaced)"

text \<open>The placed order after its vendor has confirmed it, and then completed it.\<close>

definition exConfirmed :: World where
  "exConfirmed =
     snd (updateOrderStatus exVendorUser exOrderId
            \<lparr>body_status = CONFIRMED, body_notes = None\<rparr> exPlaced)"

definition exCompleted :: World where
  "exCompleted =
     snd (updateOrderStatus exVendorUser exOrderId
            \<lparr>body_status = COMPLETED, body_notes = None\<rparr> exConfirmed)"

definition exFailedPayload :: WebhookPayload where
  "exFailedPayload =
     \<lparr>wp_event = ''payment.failed'',
      wp_payment = Some \<lparr>pe_id = ''pay_1'', pe_order_id = ''order_1'',
                         pe_notes_orderId = Some exOrderId,
                         pe_error_description = Some ''Payment declined''\<rparr>,
      wp_refund = None\<rparr>"

definition exCapturedPayload :: WebhookPayload where
  "exCapturedPayload =
     \<lparr>wp_event = ''payment.captured'',
      wp_payment = Some \<lparr>pe_id = ''pay_1'', pe_order_id = ''order_1'',
                         pe_notes_orderId = Some exOrderId, pe_error_description = None\<rparr>,
      wp_refund = None\<rparr>"

section \<open>Properties\<close>

subsection \<open>Resolution of the requested products\<close>

lemma findAvailableProducts_distinct:
  "distinct (map product_id (product w)) \<Longrightarrow> distinct (map product_id (findAvailableProducts w ids))"
  by (simp add: findAvailableProducts_def distinct_map_filter)

lemma findAvailableProducts_subset:
  "product_id ` set (findAvailableProducts w ids) \<subseteq> set ids"
  by (auto simp: findAvailableProducts_def)

lemma resolved_count_le:
  assumes "distinct (map product_id (product w))"
  shows "length (findAvailableProducts w ids) \<le> card (set ids)"
proof -
  let ?ps = "findAvailableProducts w ids"
  have "length ?ps = card (product_id ` set ?ps)"
    using findAvailableProducts_distinct [OF assms, of ids]
    by (metis distinct_card length_map set_map)
  also have "\<dots> \<le> card (set ids)"
    by (rule card_mono) (simp_all add: findAvailableProducts_subset)
  finally show ?thesis .
qed

lemma resolved_all:
  assumes d: "distinct (map product_id (product w))"
    and l: "length (findAvailableProducts w ids) = length ids"
  shows "distinct ids" and "product_id ` set (findAvailableProducts w ids) = set ids"
proof -
  let ?ps = "findAvailableProducts w ids"
  have le: "length ?ps \<le> card (set ids)" by (rule resolved_count_le [OF d])
  have "card (set ids) \<le> length ids" by (rule card_length)
  with le l have c: "card (set ids) = length ids" by simp
  then show "distinct ids" by (simp add: card_distinct)
  have "card (product_id ` set ?ps) = length ?ps"
    using findAvailableProducts_distinct [OF d, of ids]
    by (metis distinct_card length_map set_map)
  with l c have "card (product_id ` set ?ps) = card (set ids)" by simp
  then show "product_id ` set ?ps = set ids"
    using findAvailableProducts_subset [of w ids] by (simp add: card_subset_eq)
qed







subsection \<open>The transaction of a validated order\<close>

lemma validateItems_found:
  "validateItems ps its t acc = Inr (t', acc')
     \<Longrightarrow> list_all (\<lambda>v. find (\<lambda>p. product_id p = vi_productId v) ps \<noteq> None) acc
     \<Longrightarrow> list_all (\<lambda>v. find (\<lambda>p. product_id p = vi_productId v) ps \<noteq> None) acc'"
proof (induction its arbitrary: t acc)
  case Nil
  then show ?case by simp
next
  case (Cons i its)
  show ?case
  proof (cases "find (\<lambda>p. product_id p = item_productId i) ps")
    case None
    with Cons.prems(1) have "validateItems ps its t acc = Inr (t', acc')" by simp
    from Cons.IH [OF this Cons.prems(2)] show ?thesis .
  next
    case (Some p)
    let ?v = "\<lparr>vi_productId = item_productId i, vi_quantity = item_quantity i,
               vi_unitPrice = item_unitPrice i,
               vi_totalAmount = item_unitPrice i * of_int (item_quantity i),
               vi_requiresDelivery = item_requiresDelivery i,
               vi_deliveryAddress =
                 (if truthy (item_deliveryAddress i) then item_deliveryAddress i else None)\<rparr>"
    from Some Cons.prems(1)
    have step: "validateItems ps its (t + item_unitPrice i * of_int (item_quantity i)) (acc @ [?v])
                  = Inr (t', acc')"
      by (auto simp: Let_def split: if_splits)
    have "list_all (\<lambda>v. find (\<lambda>p. product_id p = vi_productId v) ps \<noteq> None) (acc @ [?v])"
      using Cons.prems(2) Some by simp
    from Cons.IH [OF step this] show ?thesis .
  qed
qed

lemma createPharmacyBookings_Some:
  "list_all (\<lambda>v. find (\<lambda>p. product_id p = vi_productId v) ps \<noteq> None) vis
     \<Longrightarrow> \<exists>rows. createPharmacyBookings bid ps n vis = Some rows
            \<and> length rows = length vis
            \<and> list_all (\<lambda>r. pb_bookingId r = bid \<and> pb_status r = PENDING) rows"
proof (induction vis arbitrary: n)
  case Nil
  then show ?case by simp
next
  case (Cons v vis)
  from Cons.prems obtain p where p: "find (\<lambda>p. product_id p = vi_productId v) ps = Some p"
    by auto
  from Cons.prems have "list_all (\<lambda>v. find (\<lambda>p. product_id p = vi_productId v) ps \<noteq> None) vis"
    by simp
  from Cons.IH [OF this, of "Suc n"] obtain rows where
    "createPharmacyBookings bid ps (Suc n) vis = Some rows" "length rows = length vis"
    "list_all (\<lambda>r. pb_bookingId r = bid \<and> pb_status r = PENDING) rows"
    by blast
  with p show ?case by simp
qed

lemma validateOrder_found:
  assumes "validateOrder user orderData w = Inr vo"
  shows "list_all (\<lambda>v. find (\<lambda>p. product_id p = vi_productId v) (vo_products vo) \<noteq> None)
           (vo_validatedItems vo)"
proof -
  from assms obtain t where
    "validateItems (vo_products vo) (items orderData) 0 [] = Inr (t, vo_validatedItems vo)"
    by (auto simp: validateOrder_def Let_def split: if_splits list.splits sum.splits)
  from validateItems_found [OF this] show ?thesis by simp
qed

text \<open>What opening the gateway order can change: the gateway reference of payments.\<close>

lemma openGatewayOrder_frame:
  assumes "openGatewayOrder env user orderData t bid w = (ro, w')"
  shows "booking w' = booking w" and "pharmacyBooking w' = pharmacyBooking w"
    and "length (payment w') = length (payment w)"
    and "payment w \<noteq> [] \<Longrightarrow> payment_totalAmount (last (payment w')) = payment_totalAmount (last (payment w))
           \<and> payment_commissionAmount (last (payment w')) = payment_commissionAmount (last (payment w))
           \<and> vendorAmount (last (payment w')) = vendorAmount (last (payment w))
           \<and> payment_bookingId (last (payment w')) = payment_bookingId (last (payment w))
           \<and> paymentStatus (last (payment w')) = paymentStatus (last (payment w))"
    and "ro = None \<Longrightarrow> w' = w"
  using assms
  by (auto simp: openGatewayOrder_def payment_update_byBookingId_def last_map
           split: if_splits sum.splits option.splits)

lemma openGatewayOrder_down:
  assumes "\<forall>pd. isl (PaymentService_createOrder env pd)"
  shows "fst (openGatewayOrder env user orderData t bid w) = None"
proof -
  let ?pd = "\<lparr>pd_amount = t, pd_currency = ''INR'', pd_orderId = bid,
              pd_customerInfo = \<lparr>ci_name = ''Customer'', ci_phone = phoneNumber user\<rparr>\<rparr>"
  from assms have "isl (PaymentService_createOrder env ?pd)" by blast
  then obtain e where "PaymentService_createOrder env ?pd = Inl e" by (auto simp: isl_def)
  then show ?thesis by (simp add: openGatewayOrder_def)
qed

lemma sendOrderNotification_frame:
  "booking (sendOrderNotification ty oid uid vid w) = booking w"
  "pharmacyBooking (sendOrderNotification ty oid uid vid w) = pharmacyBooking w"
  "payment (sendOrderNotification ty oid uid vid w) = payment w"
  "refundCalls (sendOrderNotification ty oid uid vid w) = refundCalls w"
  "marketBooking (sendOrderNotification ty oid uid vid w) = marketBooking w"
  by (auto simp: sendOrderNotification_def sendNotification_def Let_def split: option.splits)

lemma createOrder_rejected:
  "validateOrder user orderData w = Inl (code, m)
     \<Longrightarrow> createOrder env user orderData w = (ErrorResponse code m, w)"
  by (simp add: createOrder_def)

lemma createOrder_placed:
  assumes v: "validateOrder user orderData w = Inr vo"
  shows "\<exists>d w'. createOrder env user orderData w = (SuccessResponse 201 d, w')
     \<and> oc_status d = PENDING
     \<and> oc_totalAmount d = vo_calculatedTotal vo
     \<and> oc_commissionAmount d = calculateCommission (vo_calculatedTotal vo) (vendorType (vo_vendor vo))
     \<and> (\<exists>b ls. booking w' = booking w @ [b]
           \<and> booking_id b = oc_orderId d
           \<and> booking_status b = PENDING
           \<and> booking_totalAmount b = vo_calculatedTotal vo
           \<and> booking_commissionAmount b = oc_commissionAmount d
           \<and> pharmacyBooking w' = pharmacyBooking w @ ls
           \<and> length ls = length (vo_validatedItems vo)
           \<and> list_all (\<lambda>r. pb_bookingId r = booking_id b \<and> pb_status r = PENDING) ls)
     \<and> length (payment w') = Suc (length (payment w))
     \<and> payment_bookingId (last (payment w')) = oc_orderId d
     \<and> payment_totalAmount (last (payment w')) = vo_calculatedTotal vo
     \<and> payment_commissionAmount (last (payment w')) = oc_commissionAmount d
     \<and> vendorAmount (last (payment w'))
           = calculateVendorAmount (vo_calculatedTotal vo) (oc_commissionAmount d)
     \<and> paymentStatus (last (payment w')) = PAYMENT_PENDING
     \<and> (ps_razorpayOrderId (oc_payment d) = None
            \<longrightarrow> (\<exists>p. payment w' = payment w @ [p] \<and> razorpayOrderId p = None))
     \<and> ((\<forall>pd. isl (PaymentService_createOrder env pd)) \<longrightarrow> ps_razorpayOrderId (oc_payment d) = None)"
proof -
  let ?c = "calculateCommission (vo_calculatedTotal vo) (vendorType (vo_vendor vo))"
  let ?v = "calculateVendorAmount (vo_calculatedTotal vo) ?c"
  obtain rows where rows:
    "createPharmacyBookings (genId (idSeed w)) (vo_products vo) (Suc (idSeed w)) (vo_validatedItems vo)
       = Some rows"
    "length rows = length (vo_validatedItems vo)"
    "list_all (\<lambda>r. pb_bookingId r = genId (idSeed w) \<and> pb_status r = PENDING) rows"
    using createPharmacyBookings_Some [OF validateOrder_found [OF v]] by blast
  obtain b ls p w1 where tx:
    "createBookingTransaction user orderData vo ?c ?v w = Some (b, ls, p, w1)"
    "booking w1 = booking w @ [b]" "pharmacyBooking w1 = pharmacyBooking w @ ls"
    "payment w1 = payment w @ [p]" "ls = rows" "booking_id b = genId (idSeed w)"
    "booking_status b = PENDING" "booking_totalAmount b = vo_calculatedTotal vo"
    "booking_commissionAmount b = ?c" "payment_bookingId p = booking_id b"
    "payment_totalAmount p = vo_calculatedTotal vo" "payment_commissionAmount p = ?c"
    "vendorAmount p = ?v" "paymentStatus p = PAYMENT_PENDING" "razorpayOrderId p = None"
    using rows(1) by (simp add: createBookingTransaction_def Let_def)
  obtain ro w2 where g:
    "openGatewayOrder env user orderData (vo_calculatedTotal vo) (booking_id b) w1 = (ro, w2)"
    by (cases "openGatewayOrder env user orderData (vo_calculatedTotal vo) (booking_id b) w1")
  note fr = openGatewayOrder_frame [OF g]
  have ne: "payment w1 \<noteq> []" using tx(4) by simp
  let ?w3 = "sendOrderNotification ORDER_PLACED (booking_id b) (userId user)
               (Some (vendor_id (vo_vendor vo))) w2"
  let ?d = "\<lparr>oc_orderId = booking_id b, oc_totalAmount = vo_calculatedTotal vo,
             oc_commissionAmount = ?c, oc_status = booking_status b,
             oc_items = vo_validatedItems vo,
             oc_payment = \<lparr>ps_paymentStatus = paymentStatus p, ps_paymentMethod = paymentMethod p,
                            ps_razorpayOrderId = map_option ror_id ro\<rparr>\<rparr>"
  have r: "createOrder env user orderData w = (SuccessResponse 201 ?d, ?w3)"
    using v tx(1) g by (simp add: createOrder_def Let_def)
  have none: "ps_razorpayOrderId (oc_payment ?d) = None
                \<longrightarrow> (\<exists>p. payment ?w3 = payment w @ [p] \<and> razorpayOrderId p = None)"
    using fr(5) tx(4,15) by (auto simp: sendOrderNotification_frame)
  have down: "(\<forall>pd. isl (PaymentService_createOrder env pd)) \<longrightarrow> ps_razorpayOrderId (oc_payment ?d) = None"
    using g openGatewayOrder_down [of env user orderData "vo_calculatedTotal vo" "booking_id b" w1]
    by auto
  show ?thesis
    apply (rule exI [of _ ?d], rule exI [of _ ?w3])
    apply (intro conjI)
    subgoal by (rule r)
    subgoal using tx(7) by simp
    subgoal by simp
    subgoal by simp
    subgoal
      apply (rule exI [of _ b], rule exI [of _ ls])
      using tx rows fr(1,2) by (simp add: sendOrderNotification_frame)
    subgoal using fr(3) tx(4) by (simp add: sendOrderNotification_frame)
    subgoal using fr(4) [OF ne] tx by (simp add: sendOrderNotification_frame)
    subgoal using fr(4) [OF ne] tx by (simp add: sendOrderNotification_frame)
    subgoal using fr(4) [OF ne] tx by (simp add: sendOrderNotification_frame)
    subgoal using fr(4) [OF ne] tx by (simp add: sendOrderNotification_frame)
    subgoal using fr(4) [OF ne] tx by (simp add: sendOrderNotification_frame)
    subgoal by (rule none)
    subgoal by (rule down)
    done
qed

subsection \<open>Outcomes of the validation\<close>





subsection \<open>C4: the declared total against the computed one\<close>



subsection \<open>C10: one product on two lines\<close>

text \<open>
  Claim C10. A customer's request that fits the schema and names the same product id on
  two lines is answered 400 with the products-not-available message, and the world is
  left as it was: the database returns each matching product once, so fewer rows come
  back than ids were asked for. Product ids are unique in the database (primary key).
  The example after it is a request whose product exists, is available, and whose two
  lines are each within the quantity and price bounds.
\<close>

theorem createOrder_duplicate_productId:
  assumes "role user = CUSTOMER" and "createOrderSchema od"
    and dup: "\<not> distinct (map item_productId (items od))"
    and d: "distinct (map product_id (product w))"
  shows "createOrder env user od w = (ErrorResponse 400 SomeProductsNotAvailable, w)"
proof -
  have "length (findAvailableProducts w (map item_productId (items od)))
          \<noteq> length (map item_productId (items od))"
    using resolved_all(1) [OF d, of "map item_productId (items od)"] dup by blast
  with assms(1,2) have "validateOrder user od w = Inl (400, SomeProductsNotAvailable)"
    by (simp add: validateOrder_def Let_def)
  then show ?thesis by (rule createOrder_rejected)
qed

theorem createOrder_duplicate_productId_witness:
  "role exCustomer = CUSTOMER \<and> createOrderSchema exBodyTwice
   \<and> \<not> distinct (map item_productId (items exBodyTwice))
   \<and> distinct (map product_id (product exWorld))
   \<and> list_all (\<lambda>i. resolve (product exWorld) i = Some exProduct \<and> isAvailable exProduct
                    \<and> \<not> belowMinimum (product exWorld) i \<and> \<not> priceOutOfRange (product exWorld) i)
        (items exBodyTwice)
   \<and> totalAmount exBodyTwice = sumOfLineTotals (items exBodyTwice)
   \<and> createOrder exEnv exCustomer exBodyTwice exWorld
        = (ErrorResponse 400 SomeProductsNotAvailable, exWorld)"
proof -
  have h1: "role exCustomer = CUSTOMER" by code_simp
  have h2: "createOrderSchema exBodyTwice" by code_simp
  have h3: "\<not> distinct (map item_productId (items exBodyTwice))" by code_simp
  have h4: "distinct (map product_id (product exWorld))" by code_simp
  have h5: "list_all (\<lambda>i. resolve (product exWorld) i = Some exProduct \<and> isAvailable exProduct
                    \<and> \<not> belowMinimum (product exWorld) i \<and> \<not> priceOutOfRange (product exWorld) i)
        (items exBodyTwice)" by code_simp
  have h6: "totalAmount exBodyTwice = sumOfLineTotals (items exBodyTwice)" by code_simp
  from createOrder_duplicate_productId [OF h1 h2 h3 h4, of exEnv] h1 h2 h3 h4 h5 h6
  show ?thesis by simp
qed

subsection \<open>C5: catalog validation is all-or-nothing\<close>



subsection \<open>C1: the commission split of a created order\<close>






subsection \<open>C9: a gateway failure after the commit\<close>

text \<open>
  Claim C9. When a request passes the validation of \<open>createOrder\<close> and the gateway
  fails to open a payment order, the caller is still answered 201 for an order in status
  PENDING with no gateway order id; the booking row, one line row per validated item and
  the payment row have been appended to their tables, the booking and its lines in
  status PENDING, the payment pending and without a gateway order id.
\<close>

theorem createOrder_gateway_failure_nonfatal:
  assumes v: "validateOrder user od w = Inr vo"
    and down: "\<forall>pd. isl (PaymentService_createOrder env pd)"
  shows "\<exists>d w' b ls p.
       createOrder env user od w = (SuccessResponse 201 d, w')
     \<and> oc_status d = PENDING \<and> ps_razorpayOrderId (oc_payment d) = None
     \<and> booking w' = booking w @ [b] \<and> booking_id b = oc_orderId d \<and> booking_status b = PENDING
     \<and> pharmacyBooking w' = pharmacyBooking w @ ls \<and> length ls = length (vo_validatedItems vo)
     \<and> list_all (\<lambda>r. pb_bookingId r = booking_id b \<and> pb_status r = PENDING) ls
     \<and> payment w' = payment w @ [p] \<and> payment_bookingId p = booking_id b
     \<and> paymentStatus p = PAYMENT_PENDING \<and> razorpayOrderId p = None"
proof -
  from createOrder_placed [OF v, of env]
  show ?thesis
  proof (elim exE conjE, goal_cases)
    case (1 d w' b ls)
    from 1 down have n: "ps_razorpayOrderId (oc_payment d) = None" by blast
    with 1 obtain p where p: "payment w' = payment w @ [p]" "razorpayOrderId p = None"
      by blast
    from 1 p(1) have q: "payment_bookingId p = oc_orderId d" "paymentStatus p = PAYMENT_PENDING"
      by simp_all
    show ?case
      apply (rule exI [of _ d], rule exI [of _ w'], rule exI [of _ b], rule exI [of _ ls],
             rule exI [of _ p])
      using 1 n p q by simp
  qed
qed

theorem createOrder_gateway_failure_nonfatal_witness:
  "(\<forall>pd. isl (PaymentService_createOrder exEnv pd))
   \<and> \<not> isl (validateOrder exCustomer exBody exWorld)
   \<and> \<not> isError (fst (createOrder exEnv exCustomer exBody exWorld))
   \<and> map booking_id (booking exPlaced) = [exOrderId]
   \<and> map booking_status (booking exPlaced) = [PENDING]
   \<and> map pb_bookingId (pharmacyBooking exPlaced) = [exOrderId]
   \<and> map payment_bookingId (payment exPlaced) = [exOrderId]
   \<and> map razorpayOrderId (payment exPlaced) = [None]"
proof -
  have down: "\<forall>pd. isl (PaymentService_createOrder exEnv pd)"
    by (simp add: PaymentService_createOrder_def exEnv_def)
  have v: "validateOrder exCustomer exBody exWorld =
             Inr \<lparr>vo_products = [exProduct], vo_vendor = vendor exProduct,
                  vo_calculatedTotal = 200,
                  vo_validatedItems =
                    [\<lparr>vi_productId = ''cproduct01'', vi_quantity = 2, vi_unitPrice = 100,
                      vi_totalAmount = 200, vi_requiresDelivery = False,
                      vi_deliveryAddress = None\<rparr>]\<rparr>"
    by code_simp
  have m: "map booking_id (booking exPlaced) = [exOrderId]"
    "map booking_status (booking exPlaced) = [PENDING]"
    "map pb_bookingId (pharmacyBooking exPlaced) = [exOrderId]"
    "map payment_bookingId (payment exPlaced) = [exOrderId]"
    "map razorpayOrderId (payment exPlaced) = [None]"
    by code_simp+
  from createOrder_gateway_failure_nonfatal [OF v down]
  have "\<not> isError (fst (createOrder exEnv exCustomer exBody exWorld))" by auto
  with down v m show ?thesis by simp
qed

subsection \<open>Facts about the status writes and the refund\<close>

lemma find_map_preserved:
  "(\<And>x. P (f x) = P x) \<Longrightarrow> find P (map f xs) = map_option f (find P xs)"
  by (induction xs) simp_all

lemma statusTransaction_Some:
  assumes "statusTransaction bid st w = Some (u, w1)"
  shows "booking w1 = map (\<lambda>r. if booking_id r = bid then r\<lparr>booking_status := st\<rparr> else r) (booking w)"
    and "pharmacyBooking w1
           = map (\<lambda>r. if pb_bookingId r = bid then r\<lparr>pb_status := st\<rparr> else r) (pharmacyBooking w)"
    and "payment w1 = payment w" and "refundCalls w1 = refundCalls w"
    and "gatewayRefunds w1 = gatewayRefunds w" and "product w1 = product w"
    and "booking_id u = bid" and "booking_status u = st"
  using assms
  by (auto simp: statusTransaction_def booking_update_status_def pharmacyBooking_updateMany_def
           split: option.splits dest: find_Some_iff [THEN iffD1])


lemma initiateRefund_frame:
  "booking (snd (initiateRefund env pid a r w)) = booking w"
  "pharmacyBooking (snd (initiateRefund env pid a r w)) = pharmacyBooking w"
  "refundCalls (snd (initiateRefund env pid a r w))
     = refundCalls w @ [\<lparr>rc_paymentId = pid, rc_amount = a, rc_reason = r\<rparr>]"
  by (auto simp: initiateRefund_def Let_def split: option.splits)

lemma initiateRefund_gateway:
  "gatewayRefunds (snd (initiateRefund env pid a r w)) = gatewayRefunds w
   \<or> (\<exists>x. gatewayRefunds (snd (initiateRefund env pid a r w)) = gatewayRefunds w @ [x])"
  by (auto simp: initiateRefund_def Let_def split: option.splits)

subsection \<open>C7: the refund on cancellation\<close>

lemma cancelOrder_success:
  assumes "cancelOrder env user oid w = (SuccessResponse code d, w')"
  obtains order u w1 where
    "oid \<noteq> []" "role user = CUSTOMER"
    "find (\<lambda>b. booking_id b = oid \<and> booking_userId b = userId user) (booking w) = Some order"
    "booking_id order = oid"
    "\<not> terminal (booking_status order)"
    "statusTransaction oid CANCELLED w = Some (u, w1)"
    "w' = (case orderPaymentOf w oid of
             None \<Rightarrow> w1
           | Some pay \<Rightarrow>
               if paymentStatus pay = SUCCESS
               then snd (initiateRefund env (payment_id pay) (Some (payment_totalAmount pay))
                           (Some ''Customer cancellation'') w1)
               else w1)"
proof -
  from assms have a: "oid \<noteq> []" "role user = CUSTOMER"
    by (auto simp: cancelOrder_def split: if_splits)
  from assms a obtain order where
    f: "find (\<lambda>b. booking_id b = oid \<and> booking_userId b = userId user) (booking w) = Some order"
    by (auto simp: cancelOrder_def split: option.splits)
  then have i: "booking_id order = oid" by (auto simp: find_Some_iff)
  from assms a f have t: "\<not> terminal (booking_status order)"
    by (auto simp: cancelOrder_def terminal_def Let_def split: if_splits)
  from assms a f t obtain u w1 where s: "statusTransaction oid CANCELLED w = Some (u, w1)"
    by (auto simp: cancelOrder_def terminal_def Let_def split: option.splits)
  from assms a f t s i
  have "w' = (case orderPaymentOf w oid of
             None \<Rightarrow> w1
           | Some pay \<Rightarrow>
               if paymentStatus pay = SUCCESS
               then snd (initiateRefund env (payment_id pay) (Some (payment_totalAmount pay))
                           (Some ''Customer cancellation'') w1)
               else w1)"
    by (auto simp: cancelOrder_def terminal_def Let_def orderPaymentOf_def split: option.splits)
  with a f i t s show ?thesis by (rule that)
qed

lemma cancelOrder_cancelled:
  assumes "oid \<noteq> []" "role user = CUSTOMER"
    and "find (\<lambda>b. booking_id b = oid \<and> booking_userId b = userId user) (booking w) = Some order"
    and "booking_status order = CANCELLED"
  shows "cancelOrder env user oid w = (ErrorResponse 400 AlreadyCancelled, w)"
  using assms by (simp add: cancelOrder_def Let_def)

text \<open>
  Claim C7. For every \<open>cancelOrder\<close> call that succeeds: when the payment of the order
  has status SUCCESS, exactly one call of the refund operation is made, for that payment
  and with its total amount (and at most one refund request reaches the gateway); when
  the order has no payment or the payment has any other status, no refund call is made
  and nothing reaches the gateway. The same call on the order, now cancelled, is answered
  400 with the already-cancelled message and leaves the world, refund calls included, as
  it is, however often it is repeated.
\<close>

theorem cancelOrder_refund_once:
  assumes ok: "cancelOrder env user oid w = (SuccessResponse code d, w')"
  shows "(\<forall>pay. orderPaymentOf w oid = Some pay \<and> paymentStatus pay = SUCCESS \<longrightarrow>
            refundCalls w' = refundCalls w
              @ [\<lparr>rc_paymentId = payment_id pay, rc_amount = Some (payment_totalAmount pay),
                  rc_reason = Some ''Customer cancellation''\<rparr>]
            \<and> length (gatewayRefunds w') \<le> Suc (length (gatewayRefunds w)))
       \<and> ((case orderPaymentOf w oid of None \<Rightarrow> True | Some pay \<Rightarrow> paymentStatus pay \<noteq> SUCCESS)
            \<longrightarrow> refundCalls w' = refundCalls w \<and> gatewayRefunds w' = gatewayRefunds w)
       \<and> cancelOrder env user oid w' = (ErrorResponse 400 AlreadyCancelled, w')
       \<and> (\<forall>n. ((\<lambda>v. snd (cancelOrder env user oid v)) ^^ n) w' = w')"
proof -
  from ok obtain order u w1 where c:
    "oid \<noteq> []" "role user = CUSTOMER"
    "find (\<lambda>b. booking_id b = oid \<and> booking_userId b = userId user) (booking w) = Some order"
    "booking_id order = oid"
    "\<not> terminal (booking_status order)"
    "statusTransaction oid CANCELLED w = Some (u, w1)"
    "w' = (case orderPaymentOf w oid of
             None \<Rightarrow> w1
           | Some pay \<Rightarrow>
               if paymentStatus pay = SUCCESS
               then snd (initiateRefund env (payment_id pay) (Some (payment_totalAmount pay))
                           (Some ''Customer cancellation'') w1)
               else w1)"
    by (rule cancelOrder_success)
  note st = statusTransaction_Some [OF c(6)]
  have one: "refundCalls w' = refundCalls w
              @ [\<lparr>rc_paymentId = payment_id pay, rc_amount = Some (payment_totalAmount pay),
                  rc_reason = Some ''Customer cancellation''\<rparr>]
            \<and> length (gatewayRefunds w') \<le> Suc (length (gatewayRefunds w))"
    if "orderPaymentOf w oid = Some pay" "paymentStatus pay = SUCCESS" for pay
    using that c(7) st(4,5)
      initiateRefund_gateway [of env "payment_id pay" "Some (payment_totalAmount pay)"
                                 "Some ''Customer cancellation''" w1]
    by (auto simp: initiateRefund_frame)
  have zero: "refundCalls w' = refundCalls w \<and> gatewayRefunds w' = gatewayRefunds w"
    if "case orderPaymentOf w oid of None \<Rightarrow> True | Some pay \<Rightarrow> paymentStatus pay \<noteq> SUCCESS"
    using that c(7) st(4,5) by (auto split: option.splits)
  have bk: "booking w' = map (\<lambda>r. if booking_id r = oid then r\<lparr>booking_status := CANCELLED\<rparr> else r)
                            (booking w)"
    using c(7) st(1) by (auto simp: initiateRefund_frame split: option.splits)
  have "find (\<lambda>b. booking_id b = oid \<and> booking_userId b = userId user) (booking w')
          = Some (order\<lparr>booking_status := CANCELLED\<rparr>)"
    unfolding bk using c(3,4) by (subst find_map_preserved) auto
  then have again: "cancelOrder env user oid w' = (ErrorResponse 400 AlreadyCancelled, w')"
    using c(1,2) by (intro cancelOrder_cancelled) auto
  have rep: "((\<lambda>v. snd (cancelOrder env user oid v)) ^^ n) w' = w'" for n
    by (induction n) (simp_all add: again)
  from one zero again rep show ?thesis by blast
qed


theorem cancelOrder_refund_once_witness:
  "fst (cancelOrder exEnv exCustomer exOrderId exPaid)
     = SuccessResponse 200 \<lparr>ou_id = exOrderId, ou_status = CANCELLED\<rparr>
   \<and> map paymentStatus (payment exPaid) = [SUCCESS]
   \<and> map payment_totalAmount (payment exPaid) = [200]
   \<and> refundCalls exPaid = []
   \<and> refundCalls (snd (cancelOrder exEnv exCustomer exOrderId exPaid))
        = [\<lparr>rc_paymentId = ''cuid00002'', rc_amount = Some 200,
            rc_reason = Some ''Customer cancellation''\<rparr>]
   \<and> cancelOrder exEnv exCustomer exOrderId (snd (cancelOrder exEnv exCustomer exOrderId exPaid))
        = (ErrorResponse 400 AlreadyCancelled, snd (cancelOrder exEnv exCustomer exOrderId exPaid))
   \<and> fst (cancelOrder exEnv exCustomer exOrderId exPlaced)
     = SuccessResponse 200 \<lparr>ou_id = exOrderId, ou_status = CANCELLED\<rparr>
   \<and> map paymentStatus (payment exPlaced) = [PAYMENT_PENDING]
   \<and> refundCalls (snd (cancelOrder exEnv exCustomer exOrderId exPlaced)) = []"
proof -
  let ?w' = "snd (cancelOrder exEnv exCustomer exOrderId exPaid)"
  let ?d = "\<lparr>ou_id = exOrderId, ou_status = CANCELLED\<rparr>"
  have f: "fst (cancelOrder exEnv exCustomer exOrderId exPaid) = SuccessResponse 200 ?d"
    by code_simp
  then have e: "cancelOrder exEnv exCustomer exOrderId exPaid = (SuccessResponse 200 ?d, ?w')"
    by (simp add: prod_eq_iff)
  have p: "orderPaymentOf exPaid exOrderId
             = Some \<lparr>payment_id = ''cuid00002'', payment_bookingId = exOrderId,
                     payment_vendorId = ''cvendor001'', payment_totalAmount = 200,
                     payment_commissionAmount = 32, vendorAmount = 168,
                     paymentMethod = ''RAZORPAY'', paymentStatus = SUCCESS,
                     razorpayOrderId = None, razorpayPaymentId = Some ''pay_1'',
                     razorpaySignature = Some (replicate 64 (CHR ''0'')),
                     refundId = None, refundAmount = None\<rparr>"
    by code_simp
  have r0: "refundCalls exPaid = []" by code_simp
  have m: "map paymentStatus (payment exPaid) = [SUCCESS]"
    "map payment_totalAmount (payment exPaid) = [200]"
    by code_simp+
  note t = cancelOrder_refund_once [OF e]
  from t p r0 have one: "refundCalls ?w'
        = [\<lparr>rc_paymentId = ''cuid00002'', rc_amount = Some 200,
            rc_reason = Some ''Customer cancellation''\<rparr>]"
    by simp
  from t have again: "cancelOrder exEnv exCustomer exOrderId ?w' = (ErrorResponse 400 AlreadyCancelled, ?w')"
    by blast
  have z: "fst (cancelOrder exEnv exCustomer exOrderId exPlaced) = SuccessResponse 200 ?d"
    "map paymentStatus (payment exPlaced) = [PAYMENT_PENDING]"
    "refundCalls (snd (cancelOrder exEnv exCustomer exOrderId exPlaced)) = []"
    by code_simp+
  from f m r0 one again z show ?thesis by simp
qed

subsection \<open>Outcomes of the two lifecycle handlers\<close>

lemma updateOrderStatus_success:
  assumes "updateOrderStatus user oid body w = (SuccessResponse code d, w')"
  obtains order u w1 where
    "find (\<lambda>b. booking_id b = oid \<and> Some (booking_vendorId b) = vendorId user) (booking w)
       = Some order"
    "\<not> terminal (booking_status order)"
    "statusTransaction oid (body_status body) w = Some (u, w1)"
    "booking w' = booking w1" "pharmacyBooking w' = pharmacyBooking w1"
proof -
  from assms obtain order where
    f: "find (\<lambda>b. booking_id b = oid \<and> Some (booking_vendorId b) = vendorId user) (booking w)
          = Some order"
    by (auto simp: updateOrderStatus_def split: if_splits option.splits)
  from assms f have t: "\<not> terminal (booking_status order)"
    by (auto simp: updateOrderStatus_def terminal_def split: if_splits)
  from assms f t obtain u w1 where s: "statusTransaction oid (body_status body) w = Some (u, w1)"
    by (auto simp: updateOrderStatus_def terminal_def split: if_splits option.splits)
  from assms f t s have "booking w' = booking w1" "pharmacyBooking w' = pharmacyBooking w1"
    by (auto simp: updateOrderStatus_def terminal_def Let_def sendOrderNotification_frame
             split: if_splits)
  with f t s show ?thesis by (rule that)
qed

lemma updateOrderStatus_error:
  "isError (fst (updateOrderStatus user oid body w)) \<Longrightarrow> snd (updateOrderStatus user oid body w) = w"
  by (auto simp: updateOrderStatus_def Let_def split: if_splits option.splits)

lemma cancelOrder_error:
  "isError (fst (cancelOrder env user oid w)) \<Longrightarrow> snd (cancelOrder env user oid w) = w"
  by (auto simp: cancelOrder_def Let_def split: if_splits option.splits)

subsection \<open>C2: status updates and the transition table\<close>







subsection \<open>C3: terminal orders\<close>

lemma bookings_of_other:
  "oid \<noteq> oid' \<Longrightarrow>
     filter (\<lambda>b. booking_id b = oid)
       (map (\<lambda>r. if booking_id r = oid' then r\<lparr>booking_status := st\<rparr> else r) xs)
     = filter (\<lambda>b. booking_id b = oid) xs"
  by (induction xs) simp_all

lemma lines_of_other:
  "oid \<noteq> oid' \<Longrightarrow>
     filter (\<lambda>l. pb_bookingId l = oid)
       (map (\<lambda>r. if pb_bookingId r = oid' then r\<lparr>pb_status := st\<rparr> else r) xs)
     = filter (\<lambda>l. pb_bookingId l = oid) xs"
  by (induction xs) simp_all

lemma terminal_found:
  assumes "list_all (\<lambda>b. terminal (booking_status b)) (bookingsOf oid w)"
    and "find P (booking w) = Some order" and "booking_id order = oid"
  shows "terminal (booking_status order)"
proof -
  from assms(2) have "order \<in> set (booking w)"
    by (auto simp: find_Some_iff)
  with assms(3) have "order \<in> set (bookingsOf oid w)" by (simp add: bookingsOf_def)
  with assms(1) show ?thesis by (simp add: list_all_iff)
qed

lemma updateOrderStatus_terminal:
  assumes T: "list_all (\<lambda>b. terminal (booking_status b)) (bookingsOf oid w)"
  shows "isError (fst (updateOrderStatus user oid body w))"
proof (cases "fst (updateOrderStatus user oid body w)")
  case (ErrorResponse c m)
  then show ?thesis by simp
next
  case (SuccessResponse c d)
  then have "updateOrderStatus user oid body w
               = (SuccessResponse c d, snd (updateOrderStatus user oid body w))"
    by (simp add: prod_eq_iff)
  then obtain order where
    f: "find (\<lambda>b. booking_id b = oid \<and> Some (booking_vendorId b) = vendorId user) (booking w)
          = Some order"
    and n: "\<not> terminal (booking_status order)"
    by (rule updateOrderStatus_success)
  from f have "booking_id order = oid" by (auto simp: find_Some_iff)
  from terminal_found [OF T f this] n show ?thesis by simp
qed

lemma cancelOrder_terminal:
  assumes T: "list_all (\<lambda>b. terminal (booking_status b)) (bookingsOf oid w)"
  shows "isError (fst (cancelOrder env user oid w))"
proof (cases "fst (cancelOrder env user oid w)")
  case (ErrorResponse c m)
  then show ?thesis by simp
next
  case (SuccessResponse c d)
  then have "cancelOrder env user oid w = (SuccessResponse c d, snd (cancelOrder env user oid w))"
    by (simp add: prod_eq_iff)
  then obtain order where
    f: "find (\<lambda>b. booking_id b = oid \<and> booking_userId b = userId user) (booking w) = Some order"
    and i: "booking_id order = oid"
    and n: "\<not> terminal (booking_status order)"
    by (rule cancelOrder_success)
  from terminal_found [OF T f i] n show ?thesis by simp
qed

lemma updateOrderStatus_frame:
  assumes T: "list_all (\<lambda>b. terminal (booking_status b)) (bookingsOf oid w)"
  shows "bookingsOf oid (snd (updateOrderStatus user oid' body w)) = bookingsOf oid w
       \<and> linesOf oid (snd (updateOrderStatus user oid' body w)) = linesOf oid w"
proof (cases "fst (updateOrderStatus user oid' body w)")
  case (ErrorResponse c m)
  then have "snd (updateOrderStatus user oid' body w) = w"
    by (intro updateOrderStatus_error) simp
  then show ?thesis by simp
next
  case (SuccessResponse c d)
  let ?w' = "snd (updateOrderStatus user oid' body w)"
  from SuccessResponse have "updateOrderStatus user oid' body w = (SuccessResponse c d, ?w')"
    by (simp add: prod_eq_iff)
  then obtain order u w1 where
    f: "find (\<lambda>b. booking_id b = oid' \<and> Some (booking_vendorId b) = vendorId user) (booking w)
          = Some order"
    and n: "\<not> terminal (booking_status order)"
    and s: "statusTransaction oid' (body_status body) w = Some (u, w1)"
    and b: "booking ?w' = booking w1" and l: "pharmacyBooking ?w' = pharmacyBooking w1"
    by (rule updateOrderStatus_success)
  from f have i: "booking_id order = oid'" by (auto simp: find_Some_iff)
  have ne: "oid \<noteq> oid'"
  proof
    assume "oid = oid'"
    with terminal_found [OF T f] i n show False by simp
  qed
  note st = statusTransaction_Some [OF s]
  show ?thesis
    by (simp only: bookingsOf_def linesOf_def b l st(1,2)
                   bookings_of_other [OF ne] lines_of_other [OF ne])
qed

lemma cancelOrder_frame:
  assumes T: "list_all (\<lambda>b. terminal (booking_status b)) (bookingsOf oid w)"
  shows "bookingsOf oid (snd (cancelOrder env user oid' w)) = bookingsOf oid w
       \<and> linesOf oid (snd (cancelOrder env user oid' w)) = linesOf oid w"
proof (cases "fst (cancelOrder env user oid' w)")
  case (ErrorResponse c m)
  then have "snd (cancelOrder env user oid' w) = w"
    by (intro cancelOrder_error) simp
  then show ?thesis by simp
next
  case (SuccessResponse c d)
  let ?w' = "snd (cancelOrder env user oid' w)"
  from SuccessResponse have "cancelOrder env user oid' w = (SuccessResponse c d, ?w')"
    by (simp add: prod_eq_iff)
  then obtain order u w1 where
    f: "find (\<lambda>b. booking_id b = oid' \<and> booking_userId b = userId user) (booking w) = Some order"
    and i: "booking_id order = oid'"
    and n: "\<not> terminal (booking_status order)"
    and s: "statusTransaction oid' CANCELLED w = Some (u, w1)"
    and w': "?w' = (case orderPaymentOf w oid' of
             None \<Rightarrow> w1
           | Some pay \<Rightarrow>
               if paymentStatus pay = SUCCESS
               then snd (initiateRefund env (payment_id pay) (Some (payment_totalAmount pay))
                           (Some ''Customer cancellation'') w1)
               else w1)"
    by (rule cancelOrder_success)
  have b: "booking ?w' = booking w1" and l: "pharmacyBooking ?w' = pharmacyBooking w1"
    unfolding w' by (simp_all add: initiateRefund_frame split: option.splits)
  have ne: "oid \<noteq> oid'"
  proof
    assume "oid = oid'"
    with terminal_found [OF T f] i n show False by simp
  qed
  note st = statusTransaction_Some [OF s]
  show ?thesis
    by (simp only: bookingsOf_def linesOf_def b l st(1,2)
                   bookings_of_other [OF ne] lines_of_other [OF ne])
qed

lemma step_frame:
  assumes T: "list_all (\<lambda>b. terminal (booking_status b)) (bookingsOf oid w)"
  shows "bookingsOf oid (step env op w) = bookingsOf oid w
       \<and> linesOf oid (step env op w) = linesOf oid w"
  by (cases op) (simp_all add: updateOrderStatus_frame [OF T] cancelOrder_frame [OF T])

lemma run_frame:
  "list_all (\<lambda>b. terminal (booking_status b)) (bookingsOf oid w)
     \<Longrightarrow> bookingsOf oid (run env ops w) = bookingsOf oid w
         \<and> linesOf oid (run env ops w) = linesOf oid w"
proof (induction ops arbitrary: w)
  case Nil
  then show ?case by simp
next
  case (Cons op ops)
  note s = step_frame [OF Cons.prems, of env op]
  with Cons.prems have "list_all (\<lambda>b. terminal (booking_status b)) (bookingsOf oid (step env op w))"
    by simp
  from Cons.IH [OF this] s show ?case by simp
qed

text \<open>
  The settlement handlers do not look at the status of the order. The order of the
  example, confirmed and then completed by its vendor, is moved from COMPLETED to
  CANCELLED by \<open>processPaymentFailure\<close>, called directly or reached through a
  \<^verbatim>\<open>payment.failed\<close> webhook whose signature verifies.
\<close>

theorem settlement_reopens_terminal_counterexample:
  "map booking_status (bookingsOf exOrderId exCompleted) = [COMPLETED]
   \<and> map booking_status
        (bookingsOf exOrderId (snd (processPaymentFailure exOrderId None exCompleted)))
       = [CANCELLED]
   \<and> hmacSha256Hex exEnv ''webhook_secret'' (jsonStringify exEnv exFailedPayload)
       = replicate 64 (CHR ''0'')
   \<and> fst (handleWebhook exEnv (replicate 64 (CHR ''0'')) exFailedPayload exCompleted) = Inr ()
   \<and> map booking_status
        (bookingsOf exOrderId
           (snd (handleWebhook exEnv (replicate 64 (CHR ''0'')) exFailedPayload exCompleted)))
       = [CANCELLED]"
  by (intro conjI; code_simp)

text \<open>
  Claim C3, as the code has it. For an order whose status is COMPLETED or CANCELLED,
  every \<open>updateOrderStatus\<close> call (any caller, any body) and every \<open>cancelOrder\<close>
  call on it is answered with an error and leaves the world, hence the order, its lines
  and its payment, as it was; the owning vendor is told that completed or cancelled orders
  cannot be updated, and the owning customer that the order cannot be cancelled or is
  already cancelled. No sequence of \<open>updateOrderStatus\<close> and \<open>cancelOrder\<close> calls, on
  this or on other orders, changes the rows of the order or of its lines.
\<close>

theorem terminal_orders_stay:
  assumes T: "list_all (\<lambda>b. terminal (booking_status b)) (bookingsOf oid w)"
  shows "(\<forall>user body. isError (fst (updateOrderStatus user oid body w))
                      \<and> snd (updateOrderStatus user oid body w) = w)
     \<and> (\<forall>env user. isError (fst (cancelOrder env user oid w))
                      \<and> snd (cancelOrder env user oid w) = w)
     \<and> (\<forall>user body order.
           oid \<noteq> [] \<and> role user = VENDOR \<and> truthy (vendorId user) \<and> updateOrderStatusSchema body
           \<and> find (\<lambda>b. booking_id b = oid \<and> Some (booking_vendorId b) = vendorId user) (booking w)
               = Some order
           \<longrightarrow> fst (updateOrderStatus user oid body w)
                 = ErrorResponse 400 CannotUpdateCompletedOrCancelled)
     \<and> (\<forall>env user order.
           oid \<noteq> [] \<and> role user = CUSTOMER
           \<and> find (\<lambda>b. booking_id b = oid \<and> booking_userId b = userId user) (booking w) = Some order
           \<longrightarrow> fst (cancelOrder env user oid w)
                 = ErrorResponse 400 (if booking_status order = COMPLETED
                                      then CannotCancelCompleted else AlreadyCancelled))
     \<and> (\<forall>env ops. bookingsOf oid (run env ops w) = bookingsOf oid w
                     \<and> linesOf oid (run env ops w) = linesOf oid w)"
proof (intro conjI allI impI, goal_cases)
  case (1 user body)
  show ?case by (rule updateOrderStatus_terminal [OF T])
next
  case (2 user body)
  show ?case by (rule updateOrderStatus_error [OF updateOrderStatus_terminal [OF T]])
next
  case (3 env user)
  show ?case by (rule cancelOrder_terminal [OF T])
next
  case (4 env user)
  show ?case by (rule cancelOrder_error [OF cancelOrder_terminal [OF T]])
next
  case (5 user body order)
  then have f: "find (\<lambda>b. booking_id b = oid \<and> Some (booking_vendorId b) = vendorId user)
                  (booking w) = Some order" by simp
  then have "booking_id order = oid" by (auto simp: find_Some_iff)
  from terminal_found [OF T f this]
  have "booking_status order = COMPLETED \<or> booking_status order = CANCELLED"
    by (simp add: terminal_def)
  with 5 show ?case by (simp add: updateOrderStatus_def)
next
  case (6 env user order)
  then have f: "find (\<lambda>b. booking_id b = oid \<and> booking_userId b = userId user) (booking w)
                  = Some order" by simp
  then have "booking_id order = oid" by (auto simp: find_Some_iff)
  from terminal_found [OF T f this]
  have "booking_status order = COMPLETED \<or> booking_status order = CANCELLED"
    by (simp add: terminal_def)
  with 6 show ?case by (auto simp: cancelOrder_def Let_def)
next
  case (7 env ops)
  from run_frame [OF T] show ?case by simp
next
  case (8 env ops)
  from run_frame [OF T] show ?case by simp
qed

theorem terminal_orders_stay_witness:
  "list_all (\<lambda>b. terminal (booking_status b)) (bookingsOf exOrderId exCompleted)
   \<and> map booking_status (bookingsOf exOrderId exCompleted) = [COMPLETED]
   \<and> updateOrderStatus exVendorUser exOrderId \<lparr>body_status = CANCELLED, body_notes = None\<rparr>
        exCompleted
       = (ErrorResponse 400 CannotUpdateCompletedOrCancelled, exCompleted)
   \<and> cancelOrder exEnv exCustomer exOrderId exCompleted
       = (ErrorResponse 400 CannotCancelCompleted, exCompleted)
   \<and> map booking_status
        (bookingsOf exOrderId
           (run exEnv [UpdateStatus exVendorUser exOrderId
                         \<lparr>body_status = CONFIRMED, body_notes = None\<rparr>,
                       CancelOrder exCustomer exOrderId] exCompleted))
       = [COMPLETED]"
proof -
  have T: "list_all (\<lambda>b. terminal (booking_status b)) (bookingsOf exOrderId exCompleted)"
    by code_simp
  have m: "map booking_status (bookingsOf exOrderId exCompleted) = [COMPLETED]" by code_simp
  note t = terminal_orders_stay [OF T]
  have u: "fst (updateOrderStatus exVendorUser exOrderId
                  \<lparr>body_status = CANCELLED, body_notes = None\<rparr> exCompleted)
             = ErrorResponse 400 CannotUpdateCompletedOrCancelled"
    by code_simp
  have c: "fst (cancelOrder exEnv exCustomer exOrderId exCompleted)
             = ErrorResponse 400 CannotCancelCompleted"
    by code_simp
  from t u have u': "updateOrderStatus exVendorUser exOrderId
                       \<lparr>body_status = CANCELLED, body_notes = None\<rparr> exCompleted
       = (ErrorResponse 400 CannotUpdateCompletedOrCancelled, exCompleted)"
    by (simp add: prod_eq_iff)
  from t c have c': "cancelOrder exEnv exCustomer exOrderId exCompleted
       = (ErrorResponse 400 CannotCancelCompleted, exCompleted)"
    by (simp add: prod_eq_iff)
  from t m have r: "map booking_status
        (bookingsOf exOrderId
           (run exEnv [UpdateStatus exVendorUser exOrderId
                         \<lparr>body_status = CONFIRMED, body_notes = None\<rparr>,
                       CancelOrder exCustomer exOrderId] exCompleted))
       = [COMPLETED]"
    by simp
  from T m u' c' r show ?thesis by simp
qed

subsection \<open>C6: the lines after a settlement\<close>

lemma processPaymentFailure_lines:
  "pharmacyBooking (snd (processPaymentFailure bid reason w)) = pharmacyBooking w"
  by (auto simp: processPaymentFailure_def payment_update_byBookingId_def
                 booking_update_status_def marketBooking_updateMany_def
           split: option.splits if_splits)

lemma processPaymentSuccess_lines:
  "pharmacyBooking (snd (processPaymentSuccess env bid d w)) = pharmacyBooking w"
  by (auto simp: processPaymentSuccess_def payment_update_byBookingId_def
                 booking_update_status_def marketBooking_updateMany_def
           split: option.splits if_splits)

text \<open>
  Claim C6 asks that the lines mirror their order after every operation, the settlement
  handlers included. The two settlement handlers never write the table of the lines that
  \<open>createOrder\<close> fills: their last write goes to \<open>marketBooking\<close>. For the placed
  order of the example, \<open>processPaymentFailure\<close> leaves the order CANCELLED and its
  line PENDING, whether the client lacks the model (the call then throws after the first
  two writes) or has it; and a settlement whose signature verifies leaves the payment
  SUCCESS, the order CONFIRMED and the line PENDING.
\<close>

theorem settlement_leaves_lines_behind:
  "(\<forall>bid reason w. pharmacyBooking (snd (processPaymentFailure bid reason w)) = pharmacyBooking w)
   \<and> (\<forall>env bid d w. pharmacyBooking (snd (processPaymentSuccess env bid d w)) = pharmacyBooking w)
   \<and> map booking_status (bookingsOf exOrderId exPlaced) = [PENDING]
   \<and> map pb_status (linesOf exOrderId exPlaced) = [PENDING]
   \<and> map booking_status
        (bookingsOf exOrderId (snd (processPaymentFailure exOrderId None exPlaced)))
       = [CANCELLED]
   \<and> map pb_status (linesOf exOrderId (snd (processPaymentFailure exOrderId None exPlaced)))
       = [PENDING]
   \<and> fst (processPaymentFailure exOrderId None (exPlaced\<lparr>marketBooking := Some []\<rparr>)) = Inr ()
   \<and> map booking_status
        (bookingsOf exOrderId
           (snd (processPaymentFailure exOrderId None (exPlaced\<lparr>marketBooking := Some []\<rparr>))))
       = [CANCELLED]
   \<and> map pb_status
        (linesOf exOrderId
           (snd (processPaymentFailure exOrderId None (exPlaced\<lparr>marketBooking := Some []\<rparr>))))
       = [PENDING]
   \<and> map paymentStatus (payment exPaid) = [SUCCESS]
   \<and> map booking_status (bookingsOf exOrderId exPaid) = [CONFIRMED]
   \<and> map pb_status (linesOf exOrderId exPaid) = [PENDING]"
proof (intro conjI allI, goal_cases)
  case (1 bid reason w)
  show ?case by (rule processPaymentFailure_lines)
next
  case (2 env bid d w)
  show ?case by (rule processPaymentSuccess_lines)
qed code_simp+

subsection \<open>C8: the captured-payment webhook\<close>

lemma verifyPaymentSignature_empty:
  assumes "\<forall>k m. length (hmacSha256Hex env k m) = 64"
  shows "\<not> verifyPaymentSignature env
             \<lparr>razorpay_payment_id = pid, razorpay_order_id = oid, razorpay_signature = []\<rparr>"
proof -
  have "hmacSha256Hex env k m \<noteq> []" for k m
    using assms [rule_format, of k m] by auto
  then show ?thesis
    by (simp add: verifyPaymentSignature_def split: option.splits)
qed

lemma handlePaymentCaptured_noop:
  assumes "\<forall>k m. length (hmacSha256Hex env k m) = 64"
  shows "handlePaymentCaptured env pe w = w"
  using verifyPaymentSignature_empty [OF assms]
  by (simp add: handlePaymentCaptured_def processPaymentSuccess_def split: option.splits)

text \<open>
  Claim C8 asks that a \<^verbatim>\<open>payment.captured\<close> webhook with a valid signature marks the
  payment SUCCESS and confirms the order and its lines. The handler passes the empty
  signature on to \<open>processPaymentSuccess\<close>, which verifies it against a hex digest of 64
  characters and throws; the throw is caught and logged. So for any digest function of
  that length, a \<^verbatim>\<open>payment.captured\<close> webhook leaves the world as it was, and with a
  valid signature and a payment entity it returns normally.
\<close>

theorem handleWebhook_captured_changes_nothing:
  assumes digest: "\<forall>k m. length (hmacSha256Hex env k m) = 64"
    and ev: "wp_event payload = ''payment.captured''"
  shows "snd (handleWebhook env signature payload w) = w
     \<and> (\<forall>secret pe. WEBHOOK_SECRET env = Some secret \<and> secret \<noteq> []
            \<and> signature = hmacSha256Hex env secret (jsonStringify env payload)
            \<and> wp_payment payload = Some pe
          \<longrightarrow> handleWebhook env signature payload w = (Inr (), w))"
  using ev handlePaymentCaptured_noop [OF digest]
  by (auto simp: handleWebhook_def split: option.splits)

theorem handleWebhook_captured_changes_nothing_witness:
  "(\<forall>k m. length (hmacSha256Hex exEnv k m) = 64)
   \<and> wp_event exCapturedPayload = ''payment.captured''
   \<and> WEBHOOK_SECRET exEnv = Some ''webhook_secret''
   \<and> hmacSha256Hex exEnv ''webhook_secret'' (jsonStringify exEnv exCapturedPayload)
       = replicate 64 (CHR ''0'')
   \<and> map pe_notes_orderId (case wp_payment exCapturedPayload of None \<Rightarrow> [] | Some pe \<Rightarrow> [pe])
       = [Some exOrderId]
   \<and> map booking_id (booking exPlaced) = [exOrderId]
   \<and> map paymentStatus (payment exPlaced) = [PAYMENT_PENDING]
   \<and> map booking_status (booking exPlaced) = [PENDING]
   \<and> handleWebhook exEnv (replicate 64 (CHR ''0'')) exCapturedPayload exPlaced = (Inr (), exPlaced)"
proof -
  have d: "\<forall>k m. length (hmacSha256Hex exEnv k m) = 64" by (simp add: exEnv_def)
  have e: "wp_event exCapturedPayload = ''payment.captured''" by code_simp
  have s: "WEBHOOK_SECRET exEnv = Some ''webhook_secret''" "''webhook_secret'' \<noteq> []"
    "replicate 64 (CHR ''0'') = hmacSha256Hex exEnv ''webhook_secret'' (jsonStringify exEnv exCapturedPayload)"
    by (simp_all add: exEnv_def)
  have p: "wp_payment exCapturedPayload
             = Some \<lparr>pe_id = ''pay_1'', pe_order_id = ''order_1'',
                     pe_notes_orderId = Some exOrderId, pe_error_description = None\<rparr>"
    by (simp add: exCapturedPayload_def)
  have m: "map booking_id (booking exPlaced) = [exOrderId]"
    "map paymentStatus (payment exPlaced) = [PAYMENT_PENDING]"
    "map booking_status (booking exPlaced) = [PENDING]"
    by code_simp+
  from handleWebhook_captured_changes_nothing [OF d e, of "replicate 64 (CHR ''0'')" exPlaced] s p
  have "handleWebhook exEnv (replicate 64 (CHR ''0'')) exCapturedPayload exPlaced = (Inr (), exPlaced)"
    by blast
  with d e s p m show ?thesis by simp
qed

end
